theory Spec2Isabelle
  imports Complex_Main
begin

section \<open>Rubbish-bin simulation: data model\<close>

text \<open>
  The development embeds \<^verbatim>\<open>src/simulated_city/rubbish_sim.py\<close> and the consumer side of
  \<^verbatim>\<open>src/simulated_city/dashboard_data.py\<close>. Python integers are \<^typ>\<open>int\<close>. Python
  floats occur only as values that are stored (\<^verbatim>\<open>lat\<close>, \<^verbatim>\<open>lon\<close>) or compared
  (\<^verbatim>\<open>rng.random() < arrival_prob\<close>); a comparison of two finite floats is the comparison of
  the rationals they denote, so they are \<^typ>\<open>real\<close> here. Every exception the code can raise
  is a value of \<open>error\<close>.
\<close>

datatype error =
    ValueError | NotImplementedError | AssertionError | IndexError
  | KeyError | TypeError | OverflowError | OSError | TransportError

datatype container_name = Left | Center | Right

record ContainerState =
  fill_pct :: int

definition is_full :: "ContainerState \<Rightarrow> bool" where
  "is_full c = (fill_pct c \<ge> 100)"

record LocationState =
  location_id :: string
  lat :: real
  lon :: real
  left :: ContainerState
  center :: ContainerState
  right :: ContainerState

record DepositResult =
  deposited :: bool
  container :: "container_name option"
  old_fill_pct :: "int option"
  new_fill_pct :: "int option"

section \<open>Boundary detection\<close>

text \<open>
  \<^verbatim>\<open>boundaries_crossed(old_fill_pct, new_fill_pct, *, boundary_pct)\<close>. Python's \<^verbatim>\<open>//\<close> is
  floor division, as \<open>div\<close> on \<^typ>\<open>int\<close> is; \<^verbatim>\<open>range(a, b + 1)\<close> is \<open>[a..b]\<close>.
\<close>

definition boundaries_crossed :: "int \<Rightarrow> int \<Rightarrow> int \<Rightarrow> error + int list" where
  "boundaries_crossed old_fill new_fill boundary_pct =
     (if boundary_pct \<le> 0 then Inl ValueError
      else
        let old_bucket = old_fill div boundary_pct;
            new_bucket = new_fill div boundary_pct
        in if new_bucket \<le> old_bucket then Inr []
           else Inr (map (\<lambda>i. i * boundary_pct) [old_bucket + 1 .. new_bucket]))"

section \<open>The random source\<close>

text \<open>
  \<^verbatim>\<open>random.Random\<close> is the standard library's generator, not code of this repository. The
  simulation uses two of its methods, \<^verbatim>\<open>random()\<close> and \<^verbatim>\<open>choice(seq)\<close>. A generator
  state is an infinite tape of draws and a read position; each method call consumes one
  entry of the tape. An entry carries the float that \<^verbatim>\<open>random()\<close> would return and the raw
  entropy that \<^verbatim>\<open>choice\<close> reduces to an index below \<^verbatim>\<open>len(seq)\<close>. Nothing is assumed of
  the tape, so a statement for all \<open>rng\<close> covers every behaviour of the generator.
  \<^verbatim>\<open>choice\<close> on an empty sequence raises \<^verbatim>\<open>IndexError\<close>.
\<close>

record draw =
  unit_float :: real
  raw :: nat

record rng =
  tape :: "nat \<Rightarrow> draw"
  pos :: nat

definition rng_random :: "rng \<Rightarrow> real \<times> rng" where
  "rng_random g = (unit_float (tape g (pos g)), g\<lparr>pos := pos g + 1\<rparr>)"

definition rng_choice :: "rng \<Rightarrow> 'a list \<Rightarrow> error + ('a \<times> rng)" where
  "rng_choice g xs =
     (if xs = [] then Inl IndexError
      else Inr (xs ! (raw (tape g (pos g)) mod length xs), g\<lparr>pos := pos g + 1\<rparr>))"

section \<open>Container selection\<close>

text \<open>\<^verbatim>\<open>_pick_preferred_container(rng)\<close>: the 25/50/25 rule on one draw.\<close>

definition pick_preferred_container :: "rng \<Rightarrow> container_name \<times> rng" where
  "pick_preferred_container g =
     (let (roll, g1) = rng_random g
      in if roll < 0.25 then (Left, g1)
         else if roll < 0.75 then (Center, g1)
         else (Right, g1))"

text \<open>
  \<^verbatim>\<open>choose_container(rng, left, center, right)\<close>. The dictionary \<^verbatim>\<open>containers\<close> has the three
  names as keys, in the order left, center, right, which is the order of \<^verbatim>\<open>items()\<close>.
\<close>

definition choose_container ::
  "rng \<Rightarrow> ContainerState \<Rightarrow> ContainerState \<Rightarrow> ContainerState
     \<Rightarrow> error + (container_name option \<times> rng)" where
  "choose_container g l c r =
     (let (preferred, g1) = pick_preferred_container g;
          containers = (\<lambda>name. case name of Left \<Rightarrow> l | Center \<Rightarrow> c | Right \<Rightarrow> r)
      in if \<not> is_full (containers preferred) then Inr (Some preferred, g1)
         else
           let available = filter (\<lambda>name. \<not> is_full (containers name)) [Left, Center, Right]
           in if available = [] then Inr (None, g1)
              else (case rng_choice g1 available of
                      Inl e \<Rightarrow> Inl e
                    | Inr (name, g2) \<Rightarrow> Inr (Some name, g2)))"

section \<open>The timestep engine\<close>

type_synonym datetime = int

record SimulationLocationConfig =
  cfg_location_id :: string
  cfg_lat :: real
  cfg_lon :: real

record SimulationConfig =
  timestep_minutes :: int
  arrival_prob :: real
  bag_fill_delta_pct :: int
  status_boundary_pct :: int
  publish_every_deposit :: bool
  step_delay_s :: real
  start_time :: "datetime option"
  seed :: "int option"
  locations :: "SimulationLocationConfig list"

text \<open>\<^verbatim>\<open>_apply_deposit(container, delta_pct)\<close>; \<^verbatim>\<open>int(...)\<close> of an integer is that integer.\<close>

definition apply_deposit :: "ContainerState \<Rightarrow> int \<Rightarrow> ContainerState \<times> int \<times> int" where
  "apply_deposit c delta_pct =
     (let old_fill = fill_pct c;
          new_fill = min 100 (old_fill + delta_pct)
      in (\<lparr>fill_pct = new_fill\<rparr>, old_fill, new_fill))"

definition no_deposit :: DepositResult where
  "no_deposit = \<lparr>deposited = False, container = None, old_fill_pct = None, new_fill_pct = None\<rparr>"

text \<open>
  \<^verbatim>\<open>step_location(rng, sim_cfg, location)\<close>. The generator is mutated by the calls; the
  model returns its new state with the result.
\<close>

definition step_location ::
  "rng \<Rightarrow> SimulationConfig \<Rightarrow> LocationState \<Rightarrow> error + (rng \<times> LocationState \<times> DepositResult)" where
  "step_location g sim_cfg location =
     (let (roll, g1) = rng_random g;
          arrived = (roll < arrival_prob sim_cfg)
      in if \<not> arrived then Inr (g1, location, no_deposit)
         else
           (case choose_container g1 (left location) (center location) (right location) of
              Inl e \<Rightarrow> Inl e
            | Inr (None, g2) \<Rightarrow> Inr (g2, location, no_deposit)
            | Inr (Some Left, g2) \<Rightarrow>
                (let (new_state, old_fill, new_fill) =
                       apply_deposit (left location) (bag_fill_delta_pct sim_cfg);
                     updated = \<lparr>location_id = location_id location, lat = lat location,
                                lon = lon location, left = new_state,
                                center = center location, right = right location\<rparr>
                 in Inr (g2, updated,
                         \<lparr>deposited = True, container = Some Left,
                          old_fill_pct = Some old_fill, new_fill_pct = Some new_fill\<rparr>))
            | Inr (Some Center, g2) \<Rightarrow>
                (let (new_state, old_fill, new_fill) =
                       apply_deposit (center location) (bag_fill_delta_pct sim_cfg);
                     updated = \<lparr>location_id = location_id location, lat = lat location,
                                lon = lon location, left = left location,
                                center = new_state, right = right location\<rparr>
                 in Inr (g2, updated,
                         \<lparr>deposited = True, container = Some Center,
                          old_fill_pct = Some old_fill, new_fill_pct = Some new_fill\<rparr>))
            | Inr (Some Right, g2) \<Rightarrow>
                (let (new_state, old_fill, new_fill) =
                       apply_deposit (right location) (bag_fill_delta_pct sim_cfg);
                     updated = \<lparr>location_id = location_id location, lat = lat location,
                                lon = lon location, left = left location,
                                center = center location, right = new_state\<rparr>
                 in Inr (g2, updated,
                         \<lparr>deposited = True, container = Some Right,
                          old_fill_pct = Some old_fill, new_fill_pct = Some new_fill\<rparr>))))"

text \<open>The container of a location that a name denotes (\<^verbatim>\<open>getattr(loc_state, name)\<close>).\<close>

definition container_of :: "LocationState \<Rightarrow> container_name \<Rightarrow> ContainerState" where
  "container_of location name =
     (case name of Left \<Rightarrow> left location | Center \<Rightarrow> center location | Right \<Rightarrow> right location)"

section \<open>Status publishers\<close>

record MqttConfig =
  host :: string
  port :: int
  tls :: bool
  username :: "string option"
  password :: "string option"
  client_id_prefix :: string
  keepalive_s :: int
  base_topic :: string

record AppConfig =
  mqtt :: MqttConfig
  simulation :: "SimulationConfig option"

text \<open>
  The keyword arguments of one call of \<^verbatim>\<open>publish_status\<close>. A \<^verbatim>\<open>datetime\<close> is an instant in
  UTC, counted in microseconds since the epoch.
\<close>

record publish_args =
  a_ts :: datetime
  a_location :: LocationState
  a_container :: container_name
  a_fill_pct :: int
  a_timestep_index :: int
  a_event :: string

text \<open>
  \<^verbatim>\<open>make_status_payload\<close> builds a JSON object and serialises it. The model keeps the object,
  field by field; the text of the serialisation (float and timestamp rendering) is left to
  the library. \<^verbatim>\<open>int(...)\<close> and \<^verbatim>\<open>str(...)\<close> of an integer and of a string change nothing.
\<close>

record status_payload =
  p_ts :: datetime
  p_location_id :: string
  p_lat :: real
  p_lon :: real
  p_container :: string
  p_fill_pct :: int
  p_timestep_index :: int
  p_event :: string

definition container_str :: "container_name \<Rightarrow> string" where
  "container_str name = (case name of Left \<Rightarrow> ''left'' | Center \<Rightarrow> ''center'' | Right \<Rightarrow> ''right'')"

definition make_status_payload :: "publish_args \<Rightarrow> status_payload" where
  "make_status_payload a =
     \<lparr>p_ts = a_ts a,
      p_location_id = location_id (a_location a),
      p_lat = lat (a_location a),
      p_lon = lon (a_location a),
      p_container = container_str (a_container a),
      p_fill_pct = a_fill_pct a,
      p_timestep_index = a_timestep_index a,
      p_event = a_event a\<rparr>"

text \<open>
  Modelled from the spec: \<^verbatim>\<open>topic(mqtt_cfg, suffix)\<close> is defined in \<^verbatim>\<open>simulated_city/mqtt.py\<close>,
  which is not among the sources. The spec gives the topic of a status message as
  \<^verbatim>\<open><base_topic>/bins/<location_id>/<container>/status\<close>.
\<close>

definition topic :: "MqttConfig \<Rightarrow> string \<Rightarrow> string" where
  "topic mqtt_cfg suffix = base_topic mqtt_cfg @ ''/'' @ suffix"

text \<open>The suffix \<^verbatim>\<open>f"bins/{location.location_id}/{container}/status"\<close>.\<close>

definition status_suffix :: "publish_args \<Rightarrow> string" where
  "status_suffix a =
     ''bins/'' @ location_id (a_location a) @ ''/'' @ container_str (a_container a) @ ''/status''"

record message =
  msg_topic :: string
  msg_payload :: status_payload

definition status_message :: "MqttConfig \<Rightarrow> publish_args \<Rightarrow> message" where
  "status_message mqtt_cfg a =
     \<lparr>msg_topic = topic mqtt_cfg (status_suffix a), msg_payload = make_status_payload a\<rparr>"

text \<open>
  The outside world the publishers write to: standard output, the log files (a file
  handle is named by its path) and the broker connection. Each is a channel that holds
  what was written to it, in order, and the exception that a write to it raises, if any
  (a closed file handle raises \<^verbatim>\<open>ValueError\<close>). A computation with effects returns either
  normally or by an exception, and in both cases leaves a world behind.
\<close>

datatype chan = Console | LogFile string | Broker

record channel =
  fault :: "error option"
  content :: "message list"

type_synonym world = "chan \<Rightarrow> channel"

datatype 'a outcome = Done 'a world | Raised error world

definition emit :: "chan \<Rightarrow> message \<Rightarrow> world \<Rightarrow> unit outcome" where
  "emit c m w =
     (case fault (w c) of
        Some e \<Rightarrow> Raised e w
      | None \<Rightarrow> Done () (w(c := (w c)\<lparr>content := content (w c) @ [m]\<rparr>)))"

text \<open>
  The classes of publishers. \<open>StatusPublisher\<close> is the base class, whose method raises
  \<^verbatim>\<open>NotImplementedError\<close>. A \<open>JsonlFileStatusPublisher\<close> holds its configuration and its
  file handle; a \<open>MqttStatusPublisher\<close> holds its configuration and the handle of the one
  broker connection. Modelled from the spec: \<^verbatim>\<open>MqttClientHandle.publish_json\<close> is defined in
  \<^verbatim>\<open>simulated_city/mqtt.py\<close>, which is not among the sources; it sends the payload to the
  topic on the broker connection, and a transport failure is an exception.
\<close>

datatype publisher =
    StatusPublisher
  | NoopStatusPublisher
  | StdoutStatusPublisher MqttConfig
  | JsonlFileStatusPublisher MqttConfig string
  | TeeStatusPublisher "publisher list"
  | MqttStatusPublisher MqttConfig

text \<open>
  \<^verbatim>\<open>publish_status\<close> of each class. \<open>publish_each\<close> is the loop
  \<^verbatim>\<open>for p in self.publishers: p.publish_status(...)\<close> of \<open>TeeStatusPublisher\<close>: it has no
  exception handler, so an exception of one publisher ends the loop.
\<close>

fun publish_status :: "publisher \<Rightarrow> publish_args \<Rightarrow> world \<Rightarrow> unit outcome"
  and publish_each :: "publisher list \<Rightarrow> publish_args \<Rightarrow> world \<Rightarrow> unit outcome" where
  "publish_status StatusPublisher a w = Raised NotImplementedError w"
| "publish_status NoopStatusPublisher a w = Done () w"
| "publish_status (StdoutStatusPublisher mqtt_cfg) a w = emit Console (status_message mqtt_cfg a) w"
| "publish_status (JsonlFileStatusPublisher mqtt_cfg fp) a w =
     emit (LogFile fp) (status_message mqtt_cfg a) w"
| "publish_status (TeeStatusPublisher publishers) a w = publish_each publishers a w"
| "publish_status (MqttStatusPublisher mqtt_cfg) a w = emit Broker (status_message mqtt_cfg a) w"
| "publish_each [] a w = Done () w"
| "publish_each (p # ps) a w =
     (case publish_status p a w of
        Raised e w1 \<Rightarrow> Raised e w1
      | Done u w1 \<Rightarrow> publish_each ps a w1)"

section \<open>The simulation driver\<close>

text \<open>
  What a run takes from its environment: the generator algorithm of the library (the tape
  that \<^verbatim>\<open>random.Random(seed)\<close> produces from an integer seed), the entropy of the operating
  system (the tape of \<^verbatim>\<open>random.Random(None)\<close>), the wall clock
  (\<^verbatim>\<open>datetime.now(timezone.utc)\<close>), whether a path can be opened for writing, and whether the
  broker can be reached.
\<close>

record env =
  prng :: "int \<Rightarrow> nat \<Rightarrow> draw"
  os_entropy :: "nat \<Rightarrow> draw"
  now :: datetime
  can_open :: "string \<Rightarrow> bool"
  broker_reachable :: bool

definition Random :: "env \<Rightarrow> int option \<Rightarrow> rng" where
  "Random e s = \<lparr>tape = (case s of None \<Rightarrow> os_entropy e | Some n \<Rightarrow> prng e n), pos = 0\<rparr>"

definition initial_location_state :: "SimulationLocationConfig \<Rightarrow> LocationState" where
  "initial_location_state loc =
     \<lparr>location_id = cfg_location_id loc, lat = cfg_lat loc, lon = cfg_lon loc,
      left = \<lparr>fill_pct = 0\<rparr>, center = \<lparr>fill_pct = 0\<rparr>, right = \<lparr>fill_pct = 0\<rparr>\<rparr>"

text \<open>
  \<^verbatim>\<open>start_ts + timedelta(minutes=m)\<close>. A \<^verbatim>\<open>datetime\<close> lies between the years 1 and 9999; a sum
  outside that range raises \<^verbatim>\<open>OverflowError\<close>.
\<close>

definition datetime_min :: datetime where
  "datetime_min = - 62135596800000000"

definition datetime_max :: datetime where
  "datetime_max = 253402300799999999"

definition plus_minutes :: "datetime \<Rightarrow> int \<Rightarrow> error + datetime" where
  "plus_minutes t m =
     (let r = t + m * 60000000
      in if datetime_min \<le> r \<and> r \<le> datetime_max then Inr r else Inl OverflowError)"

text \<open>
  The initial status of every container: the inner loop over the three names, and the
  outer loop over the locations.
\<close>

fun publish_init_containers ::
  "publisher \<Rightarrow> datetime \<Rightarrow> LocationState \<Rightarrow> container_name list \<Rightarrow> world \<Rightarrow> unit outcome" where
  "publish_init_containers p start_ts loc_state [] w = Done () w"
| "publish_init_containers p start_ts loc_state (name # names) w =
     (case publish_status p
             \<lparr>a_ts = start_ts, a_location = loc_state, a_container = name,
              a_fill_pct = fill_pct (container_of loc_state name),
              a_timestep_index = - 1, a_event = ''init''\<rparr> w of
        Raised e w1 \<Rightarrow> Raised e w1
      | Done u w1 \<Rightarrow> publish_init_containers p start_ts loc_state names w1)"

fun publish_init ::
  "publisher \<Rightarrow> datetime \<Rightarrow> LocationState list \<Rightarrow> world \<Rightarrow> unit outcome" where
  "publish_init p start_ts [] w = Done () w"
| "publish_init p start_ts (loc_state # rest) w =
     (case publish_init_containers p start_ts loc_state [Left, Center, Right] w of
        Raised e w1 \<Rightarrow> Raised e w1
      | Done u w1 \<Rightarrow> publish_init p start_ts rest w1)"

text \<open>
  What the driver does with the result of one \<open>step_location\<close> (the body of the loop over
  the locations after the call). \<open>publish_crossings\<close> is the loop
  \<^verbatim>\<open>for _boundary in boundaries_crossed(...)\<close>: its body does not use the loop variable.
\<close>

fun publish_crossings :: "publisher \<Rightarrow> publish_args \<Rightarrow> int list \<Rightarrow> world \<Rightarrow> unit outcome" where
  "publish_crossings p a [] w = Done () w"
| "publish_crossings p a (boundary # rest) w =
     (case publish_status p a w of
        Raised e w1 \<Rightarrow> Raised e w1
      | Done u w1 \<Rightarrow> publish_crossings p a rest w1)"

definition publish_deposit ::
  "publisher \<Rightarrow> SimulationConfig \<Rightarrow> datetime \<Rightarrow> int \<Rightarrow> LocationState \<Rightarrow> DepositResult
     \<Rightarrow> world \<Rightarrow> unit outcome" where
  "publish_deposit p sim_cfg ts timestep_index updated deposit w =
     (if \<not> deposited deposit then Done () w
      else
        (case container deposit of
           None \<Rightarrow> Raised AssertionError w
         | Some name \<Rightarrow>
        (case old_fill_pct deposit of
           None \<Rightarrow> Raised AssertionError w
         | Some old_fill \<Rightarrow>
        (case new_fill_pct deposit of
           None \<Rightarrow> Raised AssertionError w
         | Some new_fill \<Rightarrow>
             (let a = \<lparr>a_ts = ts, a_location = updated, a_container = name,
                       a_fill_pct = new_fill, a_timestep_index = timestep_index,
                       a_event = ''status''\<rparr>
              in if publish_every_deposit sim_cfg then publish_status p a w
                 else
                   (case boundaries_crossed old_fill new_fill (status_boundary_pct sim_cfg) of
                      Inl e \<Rightarrow> Raised e w
                    | Inr crossed \<Rightarrow> publish_crossings p a crossed w))))))"

text \<open>
  The loop \<^verbatim>\<open>for i, loc_state in enumerate(locations)\<close>, which replaces each location by its
  successor, and the loop \<^verbatim>\<open>for timestep_index in range(steps)\<close> over the indices. The
  optional \<^verbatim>\<open>time.sleep\<close> changes nothing but the wall clock.
\<close>

fun step_locations ::
  "publisher \<Rightarrow> SimulationConfig \<Rightarrow> datetime \<Rightarrow> int \<Rightarrow> LocationState list \<Rightarrow> rng \<Rightarrow> world
     \<Rightarrow> (LocationState list \<times> rng) outcome" where
  "step_locations p sim_cfg ts timestep_index [] g w = Done ([], g) w"
| "step_locations p sim_cfg ts timestep_index (loc_state # rest) g w =
     (case step_location g sim_cfg loc_state of
        Inl e \<Rightarrow> Raised e w
      | Inr (g1, updated, deposit) \<Rightarrow>
          (case publish_deposit p sim_cfg ts timestep_index updated deposit w of
             Raised e w1 \<Rightarrow> Raised e w1
           | Done u w1 \<Rightarrow>
               (case step_locations p sim_cfg ts timestep_index rest g1 w1 of
                  Raised e w2 \<Rightarrow> Raised e w2
                | Done (rest', g2) w2 \<Rightarrow> Done (updated # rest', g2) w2)))"

fun run_timesteps ::
  "publisher \<Rightarrow> SimulationConfig \<Rightarrow> datetime \<Rightarrow> int list \<Rightarrow> LocationState list \<Rightarrow> rng \<Rightarrow> world
     \<Rightarrow> (LocationState list \<times> rng) outcome" where
  "run_timesteps p sim_cfg start_ts [] locs g w = Done (locs, g) w"
| "run_timesteps p sim_cfg start_ts (timestep_index # rest) locs g w =
     (case plus_minutes start_ts (timestep_minutes sim_cfg * timestep_index) of
        Inl e \<Rightarrow> Raised e w
      | Inr ts \<Rightarrow>
          (case step_locations p sim_cfg ts timestep_index locs g w of
             Raised e w1 \<Rightarrow> Raised e w1
           | Done (locs1, g1) w1 \<Rightarrow> run_timesteps p sim_cfg start_ts rest locs1 g1 w1))"

text \<open>The body of the \<^verbatim>\<open>try\<close> statement of \<^verbatim>\<open>run_simulation\<close>.\<close>

definition simulate ::
  "env \<Rightarrow> publisher \<Rightarrow> SimulationConfig \<Rightarrow> int \<Rightarrow> LocationState list \<Rightarrow> rng \<Rightarrow> world
     \<Rightarrow> unit outcome" where
  "simulate e p sim_cfg steps locs g w =
     (let start_ts = (case start_time sim_cfg of Some t \<Rightarrow> t | None \<Rightarrow> now e)
      in case publish_init p start_ts locs w of
           Raised x w1 \<Rightarrow> Raised x w1
         | Done u w1 \<Rightarrow>
             (case run_timesteps p sim_cfg start_ts [0 .. steps - 1] locs g w1 of
                Raised x w2 \<Rightarrow> Raised x w2
              | Done r w2 \<Rightarrow> Done () w2))"

text \<open>
  Opening the log file truncates it; closing a handle makes later writes to it raise.
  Modelled from the spec: \<^verbatim>\<open>connect_mqtt\<close> and the client's \<^verbatim>\<open>loop_start\<close>, \<^verbatim>\<open>loop_stop\<close> and
  \<^verbatim>\<open>disconnect\<close> are defined in \<^verbatim>\<open>simulated_city/mqtt.py\<close> and the transport library, which
  are not among the sources; connecting fails when the broker cannot be reached, a
  connection that was made carries the messages sent on it, and after the disconnection
  a send fails.
\<close>

definition open_log :: "env \<Rightarrow> string \<Rightarrow> world \<Rightarrow> unit outcome" where
  "open_log e path w =
     (if can_open e path then Done () (w(LogFile path := \<lparr>fault = None, content = []\<rparr>))
      else Raised OSError w)"

definition connect_mqtt :: "env \<Rightarrow> world \<Rightarrow> unit outcome" where
  "connect_mqtt e w =
     (if broker_reachable e then Done () (w(Broker := (w Broker)\<lparr>fault := None\<rparr>))
      else Raised TransportError w)"

definition close_channel :: "chan \<Rightarrow> error \<Rightarrow> world \<Rightarrow> world" where
  "close_channel c x w = w(c := (w c)\<lparr>fault := Some x\<rparr>)"

text \<open>The \<^verbatim>\<open>finally\<close> clause: it runs on both ways out of the \<^verbatim>\<open>try\<close> body.\<close>

definition cleanup :: "string option \<Rightarrow> bool \<Rightarrow> unit outcome \<Rightarrow> unit outcome" where
  "cleanup log_fp client r =
     (let release = (\<lambda>w.
            let w1 = (case log_fp of None \<Rightarrow> w | Some fp \<Rightarrow> close_channel (LogFile fp) ValueError w)
            in if client then close_channel Broker TransportError w1 else w1)
      in case r of
           Done u w \<Rightarrow> Done u (release w)
         | Raised x w \<Rightarrow> Raised x (release w))"

text \<open>
  \<^verbatim>\<open>run_simulation(cfg, steps, dry_run, seed_override, log_file)\<close>. \<^verbatim>\<open>if log_file\<close> holds for a
  string that is not empty. The list \<^verbatim>\<open>publishers\<close> has one or two elements when the
  publisher is chosen.
\<close>

definition run_simulation ::
  "env \<Rightarrow> AppConfig \<Rightarrow> int \<Rightarrow> bool \<Rightarrow> int option \<Rightarrow> string option \<Rightarrow> world \<Rightarrow> unit outcome" where
  "run_simulation e cfg steps dry_run seed_override log_file w =
     (if steps \<le> 0 then Raised ValueError w
      else
        (case simulation cfg of
           None \<Rightarrow> Raised ValueError w
         | Some sim_cfg \<Rightarrow>
             if locations sim_cfg = [] then Raised ValueError w
             else
               (let seed' = (case seed_override of Some s \<Rightarrow> Some s | None \<Rightarrow> seed sim_cfg);
                    g = Random e seed';
                    locs = map initial_location_state (locations sim_cfg);
                    log_fp = (case log_file of
                                None \<Rightarrow> None
                              | Some path \<Rightarrow> if path = [] then None else Some path)
                in case (case log_fp of None \<Rightarrow> Done () w | Some path \<Rightarrow> open_log e path w) of
                     Raised x w1 \<Rightarrow> Raised x w1
                   | Done u w1 \<Rightarrow>
                       (let publishers =
                              (case log_fp of
                                 None \<Rightarrow> []
                               | Some path \<Rightarrow> [JsonlFileStatusPublisher (mqtt cfg) path])
                        in if dry_run then
                             (let publishers' = publishers @ [StdoutStatusPublisher (mqtt cfg)];
                                  p = (if length publishers' > 1 then TeeStatusPublisher publishers'
                                       else publishers' ! 0)
                              in cleanup log_fp False (simulate e p sim_cfg steps locs g w1))
                           else
                             (case connect_mqtt e w1 of
                                Raised x w2 \<Rightarrow> Raised x w2
                              | Done u2 w2 \<Rightarrow>
                                  (let publishers' = publishers @ [MqttStatusPublisher (mqtt cfg)];
                                       p = (if length publishers' > 1
                                            then TeeStatusPublisher publishers'
                                            else publishers' ! 0)
                                   in cleanup log_fp True
                                        (simulate e p sim_cfg steps locs g w2)))))))"


section \<open>Specification vocabulary\<close>

text \<open>
  The definitions of this section are not code of the repository: they name what the
  properties below speak about. \<open>draws_consumed\<close> counts the method calls made on the
  generator between two of its states; \<open>step_draws\<close> is that count for one call of
  \<open>step_location\<close>. \<open>deposit_into\<close> is a location with one container replaced.
  \<open>steps_to\<close> relates a location to every location that some sequence of calls of
  \<open>step_location\<close>, with any generator states, leads to.
\<close>

definition draws_consumed :: "rng \<Rightarrow> rng \<Rightarrow> int" where
  "draws_consumed g g' = int (pos g') - int (pos g)"

definition step_draws :: "rng \<Rightarrow> SimulationConfig \<Rightarrow> LocationState \<Rightarrow> int option" where
  "step_draws g sim_cfg location =
     (case step_location g sim_cfg location of
        Inl e \<Rightarrow> None
      | Inr (g', updated, deposit) \<Rightarrow> Some (draws_consumed g g'))"

definition deposit_into :: "LocationState \<Rightarrow> container_name \<Rightarrow> int \<Rightarrow> LocationState" where
  "deposit_into location name new_fill =
     (case name of
        Left \<Rightarrow> location\<lparr>left := \<lparr>fill_pct = new_fill\<rparr>\<rparr>
      | Center \<Rightarrow> location\<lparr>center := \<lparr>fill_pct = new_fill\<rparr>\<rparr>
      | Right \<Rightarrow> location\<lparr>right := \<lparr>fill_pct = new_fill\<rparr>\<rparr>)"

definition fills_in_range :: "LocationState \<Rightarrow> bool" where
  "fills_in_range location =
     (0 \<le> fill_pct (left location) \<and> fill_pct (left location) \<le> 100
      \<and> 0 \<le> fill_pct (center location) \<and> fill_pct (center location) \<le> 100
      \<and> 0 \<le> fill_pct (right location) \<and> fill_pct (right location) \<le> 100)"

definition fills_non_decreasing :: "LocationState \<Rightarrow> LocationState \<Rightarrow> bool" where
  "fills_non_decreasing location location' =
     (fill_pct (left location) \<le> fill_pct (left location')
      \<and> fill_pct (center location) \<le> fill_pct (center location')
      \<and> fill_pct (right location) \<le> fill_pct (right location'))"

inductive steps_to :: "SimulationConfig \<Rightarrow> LocationState \<Rightarrow> LocationState \<Rightarrow> bool"
  for sim_cfg :: SimulationConfig where
  steps_to_refl: "steps_to sim_cfg location location"
| steps_to_step:
    "steps_to sim_cfg location location1
      \<Longrightarrow> step_location g sim_cfg location1 = Inr (g', location2, deposit)
      \<Longrightarrow> steps_to sim_cfg location location2"












text \<open>Concrete inputs on which the properties are evaluated.\<close>

definition sample_tape :: "nat \<Rightarrow> draw" where
  "sample_tape i = \<lparr>unit_float = 0, raw = 0\<rparr>"

definition sample_rng :: rng where
  "sample_rng = \<lparr>tape = sample_tape, pos = 0\<rparr>"

definition sample_cfg :: SimulationConfig where
  "sample_cfg = \<lparr>timestep_minutes = 15, arrival_prob = 1, bag_fill_delta_pct = 2,
     status_boundary_pct = 10, publish_every_deposit = False, step_delay_s = 0,
     start_time = Some 0, seed = Some 42,
     locations = [\<lparr>cfg_location_id = ''a'', cfg_lat = 55, cfg_lon = 12\<rparr>]\<rparr>"

definition left_full_location :: LocationState where
  "left_full_location = \<lparr>location_id = ''a'', lat = 55, lon = 12,
     left = \<lparr>fill_pct = 100\<rparr>, center = \<lparr>fill_pct = 0\<rparr>, right = \<lparr>fill_pct = 0\<rparr>\<rparr>"

definition sample_mqtt :: MqttConfig where
  "sample_mqtt = \<lparr>host = ''localhost'', port = 1883, tls = False, username = None,
     password = None, client_id_prefix = ''simcity'', keepalive_s = 60,
     base_topic = ''simulated-city''\<rparr>"

definition sample_args :: publish_args where
  "sample_args = \<lparr>a_ts = 0, a_location = left_full_location, a_container = Center,
     a_fill_pct = 31, a_timestep_index = 7, a_event = ''status''\<rparr>"

definition healthy_world :: world where
  "healthy_world c = \<lparr>fault = None, content = []\<rparr>"

definition closed_log_world :: world where
  "closed_log_world = healthy_world(LogFile ''sim.jsonl'' := \<lparr>fault = Some ValueError, content = []\<rparr>)"

definition sample_app :: AppConfig where
  "sample_app = \<lparr>mqtt = sample_mqtt, simulation = Some sample_cfg\<rparr>"

definition env_a :: env where
  "env_a = \<lparr>prng = (\<lambda>n. sample_tape), os_entropy = sample_tape, now = 0,
     can_open = (\<lambda>path. True), broker_reachable = True\<rparr>"

definition env_b :: env where
  "env_b = \<lparr>prng = (\<lambda>n. sample_tape),
     os_entropy = (\<lambda>i. \<lparr>unit_float = 1 / 2, raw = 1\<rparr>), now = 86400000000,
     can_open = (\<lambda>path. True), broker_reachable = True\<rparr>"

definition init_message :: "container_name \<Rightarrow> message" where
  "init_message name = status_message sample_mqtt
     \<lparr>a_ts = 0,
      a_location = \<lparr>location_id = ''a'', lat = 55, lon = 12, left = \<lparr>fill_pct = 0\<rparr>,
                    center = \<lparr>fill_pct = 0\<rparr>, right = \<lparr>fill_pct = 0\<rparr>\<rparr>,
      a_container = name, a_fill_pct = 0, a_timestep_index = - 1, a_event = ''init''\<rparr>"

definition tenth_message :: message where
  "tenth_message = status_message sample_mqtt
     \<lparr>a_ts = 3600000000,
      a_location = \<lparr>location_id = ''a'', lat = 55, lon = 12, left = \<lparr>fill_pct = 10\<rparr>,
                    center = \<lparr>fill_pct = 0\<rparr>, right = \<lparr>fill_pct = 0\<rparr>\<rparr>,
      a_container = Left, a_fill_pct = 10, a_timestep_index = 4, a_event = ''status''\<rparr>"

definition unseeded_app :: AppConfig where
  "unseeded_app = \<lparr>mqtt = sample_mqtt, simulation = Some (sample_cfg\<lparr>seed := None\<rparr>)\<rparr>"





section \<open>The consumer side\<close>

text \<open>
  \<^verbatim>\<open>dashboard_data.py\<close> reads the log that \<open>JsonlFileStatusPublisher\<close> writes. A value that
  \<^verbatim>\<open>json.loads\<close> returns is \<^verbatim>\<open>None\<close>, a boolean, an integer, a float (\<^verbatim>\<open>json.loads\<close> also
  reads \<^verbatim>\<open>NaN\<close> and the two infinities), a string, a list or a dictionary; the items of a
  dictionary are listed with distinct keys.
\<close>

datatype pyfloat = Finite real | NaN | Infinite

datatype json =
    JNull | JBool bool | JInt int | JFloat pyfloat | JStr string
  | JList "json list" | JDict "(string \<times> json) list"

text \<open>
  The functions of the standard library that the consumer calls, which are not code of
  the repository: \<^verbatim>\<open>json.loads\<close> (no value when it raises), \<^verbatim>\<open>str.strip()\<close> (which removes
  the whitespace of Unicode at both ends), \<^verbatim>\<open>datetime.fromisoformat\<close> followed by
  \<^verbatim>\<open>astimezone(timezone.utc)\<close> (the exception when one of the two raises: \<^verbatim>\<open>ValueError\<close> for a
  text that is not in the format, \<^verbatim>\<open>OverflowError\<close> for an instant that leaves the range of
  \<^verbatim>\<open>datetime\<close> in UTC), \<^verbatim>\<open>int\<close> of a string (no value when it raises \<^verbatim>\<open>ValueError\<close>), and
  \<^verbatim>\<open>str\<close> of a value that is not a string. Nothing is assumed of them.
\<close>

record pylib =
  loads :: "string \<Rightarrow> json option"
  strip :: "string \<Rightarrow> string"
  fromisoformat :: "string \<Rightarrow> error + datetime"
  int_of_str :: "string \<Rightarrow> int option"
  str_of :: "json \<Rightarrow> string"

record StatusEvent =
  se_ts :: datetime
  se_location_id :: string
  se_container :: string
  se_fill_pct :: int
  se_timestep_index :: int
  se_event :: string

text \<open>
  \<^verbatim>\<open>int(v)\<close>: a float is truncated towards zero, \<^verbatim>\<open>NaN\<close> raises \<^verbatim>\<open>ValueError\<close> and an
  infinity \<^verbatim>\<open>OverflowError\<close>; \<^verbatim>\<open>None\<close>, a list and a dictionary raise \<^verbatim>\<open>TypeError\<close>.
\<close>

definition py_int :: "pylib \<Rightarrow> json \<Rightarrow> error + int" where
  "py_int L v =
     (case v of
        JNull \<Rightarrow> Inl TypeError
      | JBool b \<Rightarrow> Inr (if b then 1 else 0)
      | JInt i \<Rightarrow> Inr i
      | JFloat x \<Rightarrow>
          (case x of
             Finite r \<Rightarrow> Inr (if 0 \<le> r then \<lfloor>r\<rfloor> else \<lceil>r\<rceil>)
           | NaN \<Rightarrow> Inl ValueError
           | Infinite \<Rightarrow> Inl OverflowError)
      | JStr s \<Rightarrow> (case int_of_str L s of None \<Rightarrow> Inl ValueError | Some i \<Rightarrow> Inr i)
      | JList xs \<Rightarrow> Inl TypeError
      | JDict d \<Rightarrow> Inl TypeError)"

definition py_str :: "pylib \<Rightarrow> json \<Rightarrow> string" where
  "py_str L v = (case v of JStr s \<Rightarrow> s | _ \<Rightarrow> str_of L v)"

text \<open>The truth value of a value, as \<^verbatim>\<open>or\<close> tests it.\<close>

definition py_truthy :: "json \<Rightarrow> bool" where
  "py_truthy v =
     (case v of
        JNull \<Rightarrow> False
      | JBool b \<Rightarrow> b
      | JInt i \<Rightarrow> i \<noteq> 0
      | JFloat x \<Rightarrow> x \<noteq> Finite 0
      | JStr s \<Rightarrow> s \<noteq> []
      | JList xs \<Rightarrow> xs \<noteq> []
      | JDict d \<Rightarrow> d \<noteq> [])"

text \<open>
  \<^verbatim>\<open>parse_ts(value)\<close>. A value read from JSON is never a \<^verbatim>\<open>datetime\<close> object, so the first
  test of the function fails. A value that is not a string raises \<^verbatim>\<open>ValueError\<close>; an
  exception of the library calls leaves the function as it is.
\<close>

definition parse_ts :: "pylib \<Rightarrow> json \<Rightarrow> error + datetime" where
  "parse_ts L v =
     (case v of
        JStr s \<Rightarrow>
          (let value = (if s \<noteq> [] \<and> last s = CHR ''Z'' then butlast s @ ''+00:00'' else s)
           in fromisoformat L value)
      | _ \<Rightarrow> Inl ValueError)"

text \<open>
  \<^verbatim>\<open>event_from_payload(payload)\<close>. \<^verbatim>\<open>payload[k]\<close> raises \<^verbatim>\<open>KeyError\<close> for a missing key;
  \<^verbatim>\<open>payload.get(k, d)\<close> does not. The handler around \<^verbatim>\<open>int(timestep_raw)\<close> catches
  \<^verbatim>\<open>TypeError\<close> and \<^verbatim>\<open>ValueError\<close> only.
\<close>

definition event_from_payload :: "pylib \<Rightarrow> (string \<times> json) list \<Rightarrow> error + StatusEvent" where
  "event_from_payload L payload =
     (case map_of payload ''ts'' of
        None \<Rightarrow> Inl KeyError
      | Some ts_raw \<Rightarrow>
     (case parse_ts L ts_raw of
        Inl e \<Rightarrow> Inl e
      | Inr ts \<Rightarrow>
     (case map_of payload ''location_id'' of
        None \<Rightarrow> Inl KeyError
      | Some location_raw \<Rightarrow>
     (case map_of payload ''container'' of
        None \<Rightarrow> Inl KeyError
      | Some container_raw \<Rightarrow>
     (case map_of payload ''fill_pct'' of
        None \<Rightarrow> Inl KeyError
      | Some fill_raw \<Rightarrow>
     (case py_int L fill_raw of
        Inl e \<Rightarrow> Inl e
      | Inr fill \<Rightarrow>
          (let timestep_raw =
                 (case map_of payload ''timestep_index'' of None \<Rightarrow> JInt 0 | Some v \<Rightarrow> v)
           in case (case py_int L timestep_raw of
                      Inl e \<Rightarrow> if e = TypeError \<or> e = ValueError then Inr 0 else Inl e
                    | Inr i \<Rightarrow> Inr i) of
                Inl e \<Rightarrow> Inl e
              | Inr timestep_index \<Rightarrow>
                  (let event_raw = (case map_of payload ''event'' of None \<Rightarrow> JNull | Some v \<Rightarrow> v);
                       event = (if py_truthy event_raw then py_str L event_raw else ''status'')
                   in Inr \<lparr>se_ts = ts, se_location_id = py_str L location_raw,
                           se_container = py_str L container_raw, se_fill_pct = fill,
                           se_timestep_index = timestep_index, se_event = event\<rparr>))))))))"

text \<open>
  The loop of \<^verbatim>\<open>read_jsonl_incremental\<close> over the lines read: a line that is blank, that
  \<^verbatim>\<open>json.loads\<close> rejects, or that is not a dictionary with a dictionary under \<^verbatim>\<open>payload\<close>
  adds nothing.
\<close>

fun collect_payloads :: "pylib \<Rightarrow> string list \<Rightarrow> (string \<times> json) list list" where
  "collect_payloads L [] = []"
| "collect_payloads L (line # rest) =
     (let line' = strip L line
      in if line' = [] then collect_payloads L rest
         else
           (case loads L line' of
              None \<Rightarrow> collect_payloads L rest
            | Some obj \<Rightarrow>
                (case obj of
                   JDict d \<Rightarrow>
                     (case map_of d ''payload'' of
                        Some (JDict payload) \<Rightarrow> payload # collect_payloads L rest
                      | _ \<Rightarrow> collect_payloads L rest)
                 | _ \<Rightarrow> collect_payloads L rest)))"

text \<open>
  \<^verbatim>\<open>read_jsonl_incremental(path, offset)\<close>. The file at \<^verbatim>\<open>path\<close> is given by what opening it,
  \<^verbatim>\<open>f.seek(offset)\<close>, \<^verbatim>\<open>f.readlines()\<close> and \<^verbatim>\<open>f.tell()\<close> do: they raise, or return the lines from
  the offset on and the offset after them. An exception of these calls is outside the
  handler of the loop and leaves the function.
\<close>

definition read_jsonl_incremental ::
  "pylib \<Rightarrow> (nat \<Rightarrow> error + (string list \<times> nat)) \<Rightarrow> nat
     \<Rightarrow> error + ((string \<times> json) list list \<times> nat)" where
  "read_jsonl_incremental L file offset =
     (case file offset of
        Inl e \<Rightarrow> Inl e
      | Inr (new_lines, new_offset) \<Rightarrow> Inr (collect_payloads L new_lines, new_offset))"

text \<open>
  The loop of the dashboard (\<^verbatim>\<open>scripts/dashboard/bin_dashboard.py\<close>) over the payloads read:
  \<^verbatim>\<open>try: new_events.append(event_from_payload(payload))\<close> with \<^verbatim>\<open>except Exception: continue\<close>.
  Every exception of the model is an \<^verbatim>\<open>Exception\<close>.
\<close>

fun new_events :: "pylib \<Rightarrow> (string \<times> json) list list \<Rightarrow> StatusEvent list" where
  "new_events L [] = []"
| "new_events L (payload # rest) =
     (case event_from_payload L payload of
        Inl e \<Rightarrow> new_events L rest
      | Inr ev \<Rightarrow> ev # new_events L rest)"

text \<open>
  What the consumer is to make of a payload and of a line, written from the description
  of the behaviour and not from the code; the properties of the consumer compare the
  code with these definitions. \<open>payload_event\<close> is the event of a payload that is taken,
  field by field: the timestamp that the library reads from the text of \<^verbatim>\<open>ts\<close> (a final
  \<^verbatim>\<open>Z\<close> written as \<^verbatim>\<open>+00:00\<close>), \<^verbatim>\<open>str\<close> of \<^verbatim>\<open>location_id\<close> and of \<^verbatim>\<open>container\<close>, \<^verbatim>\<open>int\<close> of
  \<^verbatim>\<open>fill_pct\<close>, \<^verbatim>\<open>int\<close> of \<^verbatim>\<open>timestep_index\<close> or 0 when it is absent or \<^verbatim>\<open>int\<close> raises on it,
  and \<^verbatim>\<open>str\<close> of \<^verbatim>\<open>event\<close> or \<^verbatim>\<open>status\<close> when it is absent or false as a truth value.
  \<open>payload_rejected\<close> lists the payloads that give no event. \<open>line_event\<close> is the event
  of a line of the log, if any.
\<close>

definition payload_event :: "pylib \<Rightarrow> (string \<times> json) list \<Rightarrow> StatusEvent option" where
  "payload_event L payload =
     (case map_of payload ''ts'' of
        Some (JStr ts_text) \<Rightarrow>
          (case fromisoformat L
                  (if ts_text \<noteq> [] \<and> last ts_text = CHR ''Z''
                   then butlast ts_text @ ''+00:00'' else ts_text) of
             Inr ts \<Rightarrow>
               (case (map_of payload ''location_id'', map_of payload ''container'',
                      map_of payload ''fill_pct'') of
                  (Some location_raw, Some container_raw, Some fill_raw) \<Rightarrow>
                    (case py_int L fill_raw of
                       Inr fill \<Rightarrow>
                         if map_of payload ''timestep_index'' = Some (JFloat Infinite) then None
                         else
                           Some \<lparr>se_ts = ts,
                                 se_location_id = py_str L location_raw,
                                 se_container = py_str L container_raw,
                                 se_fill_pct = fill,
                                 se_timestep_index =
                                   (case map_of payload ''timestep_index'' of
                                      None \<Rightarrow> 0
                                    | Some v \<Rightarrow> (case py_int L v of Inl e \<Rightarrow> 0 | Inr i \<Rightarrow> i)),
                                 se_event =
                                   (case map_of payload ''event'' of
                                      None \<Rightarrow> ''status''
                                    | Some v \<Rightarrow> if py_truthy v then py_str L v else ''status'')\<rparr>
                     | Inl e \<Rightarrow> None)
                | _ \<Rightarrow> None)
           | Inl e \<Rightarrow> None)
      | _ \<Rightarrow> None)"

definition payload_rejected :: "pylib \<Rightarrow> (string \<times> json) list \<Rightarrow> bool" where
  "payload_rejected L payload =
     (map_of payload ''ts'' = None
      \<or> (\<exists>v. map_of payload ''ts'' = Some v \<and> (\<forall>ts_text. v \<noteq> JStr ts_text))
      \<or> (\<exists>ts_text e. map_of payload ''ts'' = Some (JStr ts_text)
            \<and> fromisoformat L
                 (if ts_text \<noteq> [] \<and> last ts_text = CHR ''Z''
                  then butlast ts_text @ ''+00:00'' else ts_text) = Inl e)
      \<or> map_of payload ''location_id'' = None
      \<or> map_of payload ''container'' = None
      \<or> map_of payload ''fill_pct'' = None
      \<or> (\<exists>v e. map_of payload ''fill_pct'' = Some v \<and> py_int L v = Inl e)
      \<or> map_of payload ''timestep_index'' = Some (JFloat Infinite))"

definition line_event :: "pylib \<Rightarrow> string \<Rightarrow> StatusEvent option" where
  "line_event L line =
     (if strip L line = [] then None
      else
        (case loads L (strip L line) of
           Some (JDict d) \<Rightarrow>
             (case map_of d ''payload'' of
                Some (JDict payload) \<Rightarrow> payload_event L payload
              | _ \<Rightarrow> None)
         | _ \<Rightarrow> None))"

definition good_line :: string where
  \<open>good_line = ''{"payload":{"ts":"2026-02-18T18:26:17Z","location_id":"a","container":"left","fill_pct":10,"timestep_index":4,"event":"status"}}''\<close>

definition missing_fill_line :: string where
  \<open>missing_fill_line = ''{"payload":{"ts":"2026-02-18T18:26:17Z","location_id":"a","container":"left"}}''\<close>

definition wrong_type_line :: string where
  \<open>wrong_type_line = ''{"payload":{"ts":"2026-02-18T18:26:17Z","location_id":7,"container":"left","fill_pct":"42"}}''\<close>

definition garbage_line :: string where
  "garbage_line = ''not json''"

definition list_line :: string where
  "list_line = ''[1, 2]''"

definition good_payload :: "(string \<times> json) list" where
  "good_payload = [(''ts'', JStr ''2026-02-18T18:26:17Z''), (''location_id'', JStr ''a''),
     (''container'', JStr ''left''), (''fill_pct'', JInt 10), (''timestep_index'', JInt 4),
     (''event'', JStr ''status'')]"

definition missing_fill_payload :: "(string \<times> json) list" where
  "missing_fill_payload = [(''ts'', JStr ''2026-02-18T18:26:17Z''), (''location_id'', JStr ''a''),
     (''container'', JStr ''left'')]"

definition wrong_type_payload :: "(string \<times> json) list" where
  "wrong_type_payload = [(''ts'', JStr ''2026-02-18T18:26:17Z''), (''location_id'', JInt 7),
     (''container'', JStr ''left''), (''fill_pct'', JStr ''42'')]"

text \<open>
  The values of the library functions on the texts of the sample log. \<open>ascii_strip\<close> is
  \<^verbatim>\<open>str.strip()\<close> on a text of ASCII characters, whose whitespace is the ten characters of
  \<open>ascii_isspace\<close>; the sample log is such a text.
\<close>

definition ascii_isspace :: "char \<Rightarrow> bool" where
  "ascii_isspace c = (c \<in> set [CHR 0x09, CHR 0x0A, CHR 0x0B, CHR 0x0C, CHR 0x0D,
                                 CHR 0x1C, CHR 0x1D, CHR 0x1E, CHR 0x1F, CHR 0x20])"

definition ascii_strip :: "string \<Rightarrow> string" where
  "ascii_strip s = rev (dropWhile ascii_isspace (rev (dropWhile ascii_isspace s)))"

definition sample_lib :: pylib where
  "sample_lib =
     \<lparr>loads = (\<lambda>s. if s = good_line then Some (JDict [(''payload'', JDict good_payload)])
                    else if s = missing_fill_line
                      then Some (JDict [(''payload'', JDict missing_fill_payload)])
                    else if s = wrong_type_line
                      then Some (JDict [(''payload'', JDict wrong_type_payload)])
                    else if s = list_line then Some (JList [JInt 1, JInt 2])
                    else None),
      strip = ascii_strip,
      fromisoformat = (\<lambda>s. if s = ''2026-02-18T18:26:17+00:00'' then Inr 1771439177000000
                            else Inl ValueError),
      int_of_str = (\<lambda>s. if s = ''42'' then Some 42 else None),
      str_of = (\<lambda>v. if v = JInt 7 then ''7'' else [])\<rparr>"

definition sample_log :: "string list" where
  "sample_log = [good_line @ [CHR 0x0A], missing_fill_line @ [CHR 0x0A], [CHR 0x0A],
     garbage_line @ [CHR 0x0A], list_line @ [CHR 0x0A], wrong_type_line @ [CHR 0x0A]]"

definition good_event :: StatusEvent where
  "good_event = \<lparr>se_ts = 1771439177000000, se_location_id = ''a'', se_container = ''left'',
     se_fill_pct = 10, se_timestep_index = 4, se_event = ''status''\<rparr>"

definition coerced_event :: StatusEvent where
  "coerced_event = \<lparr>se_ts = 1771439177000000, se_location_id = ''7'', se_container = ''left'',
     se_fill_pct = 42, se_timestep_index = 0, se_event = ''status''\<rparr>"

section \<open>Properties of the boundary detector\<close>

lemma upto_strictly_increasing: "sorted_wrt (<) [a .. (b::int)]"
  by (simp add: strict_sorted_iff)

lemma scaled_upto_increasing:
  assumes "0 < (k::int)"
  shows "sorted_wrt (<) (map (\<lambda>i. i * k) [a .. b])"
proof -
  have "sorted_wrt (\<lambda>x y. x * k < y * k) [a .. b]"
    using upto_strictly_increasing [of a b] assms
    by (rule_tac sorted_wrt_mono_rel [where P = "(<)"]) auto
  then show ?thesis by (simp add: sorted_wrt_map)
qed

lemma bucket_floor_below:
  assumes "0 < (k::int)" and "i \<le> n div k"
  shows "i * k \<le> n"
proof -
  have "i * k \<le> (n div k) * k" using assms by (simp add: mult_right_mono)
  moreover have "(n div k) * k + n mod k = n" by simp
  moreover have "0 \<le> n mod k" using assms(1) by simp
  ultimately show ?thesis by linarith
qed

lemma bucket_next_above:
  assumes "0 < (k::int)" and "n div k + 1 \<le> i"
  shows "n < i * k"
proof -
  have "(n div k) * k + n mod k = n" by simp
  moreover have "n mod k < k" using assms(1) by simp
  moreover have "(n div k + 1) * k = (n div k) * k + k" by (simp add: algebra_simps)
  moreover have "(n div k + 1) * k \<le> i * k" using assms by (simp only: mult_right_mono)
  ultimately show ?thesis by linarith
qed

lemma scaled_upto_member:
  assumes "x \<in> set (map (\<lambda>i. i * (k::int)) [a .. b])"
  shows "\<exists>i. x = i * k \<and> a \<le> i \<and> i \<le> b"
proof -
  from assms have "x \<in> (\<lambda>i. i * k) ` {a .. b}" by (simp only: set_map set_upto)
  then show ?thesis by (elim imageE) (simp only: atLeastAtMost_iff, blast)
qed

text \<open>
  Claim C1. For every \<open>boundary_pct > 0\<close> and \<open>0 \<le> old \<le> new \<le> 100\<close>,
  \<open>boundaries_crossed\<close> returns exactly the list
  \<open>[boundary_pct * (old_bucket + 1), ..., boundary_pct * new_bucket]\<close>; the list is strictly
  increasing, each element is a multiple of \<open>boundary_pct\<close>, greater than \<open>old\<close> and at most
  \<open>new\<close>, and the list is empty exactly when the two buckets are equal.
\<close>

theorem boundaries_crossed_spec:
  assumes "0 < boundary_pct" and "0 \<le> old" and "old \<le> new" and "new \<le> 100"
  shows "\<exists>xs. boundaries_crossed old new boundary_pct = Inr xs
           \<and> xs = map (\<lambda>i. boundary_pct * i) [old div boundary_pct + 1 .. new div boundary_pct]
           \<and> sorted_wrt (<) xs
           \<and> (\<forall>x \<in> set xs. boundary_pct dvd x \<and> old < x \<and> x \<le> new)
           \<and> (xs = [] \<longleftrightarrow> old div boundary_pct = new div boundary_pct)"
proof -
  let ?ob = "old div boundary_pct" and ?nb = "new div boundary_pct"
  let ?xs = "map (\<lambda>i. i * boundary_pct) [?ob + 1 .. ?nb]"
  have mono: "?ob \<le> ?nb" using assms(1,3) by (simp add: zdiv_mono1)
  have run: "boundaries_crossed old new boundary_pct = Inr ?xs"
    using assms(1) mono by (auto simp: boundaries_crossed_def Let_def)
  have shape: "?xs = map (\<lambda>i. boundary_pct * i) [?ob + 1 .. ?nb]"
    by (simp add: mult.commute)
  have incr: "sorted_wrt (<) ?xs"
    using assms(1) by (rule scaled_upto_increasing)
  have elems: "\<forall>x \<in> set ?xs. boundary_pct dvd x \<and> old < x \<and> x \<le> new"
  proof
    fix x assume "x \<in> set ?xs"
    then obtain i where i: "x = i * boundary_pct" "?ob + 1 \<le> i" "i \<le> ?nb"
      using scaled_upto_member by blast
    show "boundary_pct dvd x \<and> old < x \<and> x \<le> new"
      using i bucket_next_above [OF assms(1) i(2)] bucket_floor_below [OF assms(1) i(3)]
      by simp
  qed
  have empty: "?xs = [] \<longleftrightarrow> ?ob = ?nb" using mono by auto
  show ?thesis
  proof (intro exI [of _ ?xs] conjI)
    show "boundaries_crossed old new boundary_pct = Inr ?xs" by (rule run)
    show "?xs = map (\<lambda>i. boundary_pct * i) [?ob + 1 .. ?nb]" by (rule shape)
    show "sorted_wrt (<) ?xs" by (rule incr)
    show "\<forall>x \<in> set ?xs. boundary_pct dvd x \<and> old < x \<and> x \<le> new" by (rule elems)
    show "?xs = [] \<longleftrightarrow> ?ob = ?nb" by (rule empty)
  qed
qed

theorem boundaries_crossed_spec_witness:
  "boundaries_crossed 19 31 10 = Inr [20, 30]
     \<and> (\<exists>xs. boundaries_crossed 19 31 10 = Inr xs \<and> sorted_wrt (<) xs \<and> xs \<noteq> [])"
proof -
  have h: "(0::int) < 10" "(0::int) \<le> 19" "(19::int) \<le> 31" "(31::int) \<le> 100" by simp_all
  have run: "boundaries_crossed 19 31 10 = Inr [20, 30]"
    by (simp add: boundaries_crossed_def Let_def upto.simps)
  show ?thesis using boundaries_crossed_spec [OF h] run by auto
qed

text \<open>
  Claim C8. \<open>boundaries_crossed\<close> raises (the code's \<^verbatim>\<open>ValueError\<close>) whenever
  \<open>boundary_pct \<le> 0\<close>, whatever the two fill values are, and returns a list whenever
  \<open>boundary_pct > 0\<close>.
\<close>

theorem boundaries_crossed_fails_iff:
  "(boundaries_crossed old new boundary_pct = Inl ValueError) = (boundary_pct \<le> 0)
     \<and> (\<exists>xs. boundaries_crossed old new boundary_pct = Inr xs) = (0 < boundary_pct)
     \<and> (\<exists>e. boundaries_crossed old new boundary_pct = Inl e) = (boundary_pct \<le> 0)"
  by (auto simp: boundaries_crossed_def Let_def)

theorem boundaries_crossed_fails_iff_witness:
  "boundaries_crossed 0 10 0 = Inl ValueError \<and> boundaries_crossed 9 10 10 = Inr [10]
     \<and> boundaries_crossed 0 1 10 = Inr []"
proof -
  have a: "boundaries_crossed 0 10 0 = Inl ValueError"
    using boundaries_crossed_fails_iff [of 0 10 0] by simp
  have b: "boundaries_crossed 9 10 10 = Inr [10]" "boundaries_crossed 0 1 10 = Inr []"
    by (simp_all add: boundaries_crossed_def Let_def upto.simps)
  show ?thesis using a b by simp
qed

section \<open>Properties of the selector and the timestep engine\<close>

lemma rng_choice_member:
  assumes "xs \<noteq> []"
  shows "\<exists>x. rng_choice g xs = Inr (x, g\<lparr>pos := pos g + 1\<rparr>) \<and> x \<in> set xs"
  using assms by (simp add: rng_choice_def)

lemma pick_preferred_advances:
  "\<exists>name. pick_preferred_container g = (name, g\<lparr>pos := pos g + 1\<rparr>)"
  by (simp add: pick_preferred_container_def rng_random_def Let_def)

lemma choose_container_cases:
  fixes g l c r
  defines "cs \<equiv> (\<lambda>name. case name of Left \<Rightarrow> l | Center \<Rightarrow> c | Right \<Rightarrow> r)"
  defines "pref \<equiv> fst (pick_preferred_container g)"
  shows "(\<not> is_full (cs pref) \<longrightarrow>
            choose_container g l c r = Inr (Some pref, g\<lparr>pos := pos g + 1\<rparr>))
       \<and> (is_full l \<and> is_full c \<and> is_full r \<longrightarrow>
            choose_container g l c r = Inr (None, g\<lparr>pos := pos g + 1\<rparr>))
       \<and> (is_full (cs pref) \<and> \<not> (is_full l \<and> is_full c \<and> is_full r) \<longrightarrow>
            (\<exists>name. choose_container g l c r = Inr (Some name, g\<lparr>pos := pos g + 2\<rparr>)
                \<and> \<not> is_full (cs name)))"
proof -
  obtain name where p: "pick_preferred_container g = (name, g\<lparr>pos := pos g + 1\<rparr>)"
    using pick_preferred_advances by blast
  then have pref: "pref = name" by (simp add: pref_def)
  let ?av = "filter (\<lambda>name. \<not> is_full (cs name)) [Left, Center, Right]"
  have av_empty: "?av = [] \<longleftrightarrow> (is_full l \<and> is_full c \<and> is_full r)"
    by (auto simp: cs_def)
  have c1: "\<not> is_full (cs pref) \<Longrightarrow>
      choose_container g l c r = Inr (Some pref, g\<lparr>pos := pos g + 1\<rparr>)"
    using p pref by (simp add: choose_container_def cs_def Let_def)
  have c2: "is_full l \<and> is_full c \<and> is_full r \<Longrightarrow>
      choose_container g l c r = Inr (None, g\<lparr>pos := pos g + 1\<rparr>)"
    using p by (cases name) (simp_all add: choose_container_def Let_def)
  have c3: "\<exists>name. choose_container g l c r = Inr (Some name, g\<lparr>pos := pos g + 2\<rparr>)
                \<and> \<not> is_full (cs name)"
    if full: "is_full (cs pref)" and some: "\<not> (is_full l \<and> is_full c \<and> is_full r)"
  proof -
    from some av_empty have ne: "?av \<noteq> []" by blast
    from rng_choice_member [OF ne, of "g\<lparr>pos := pos g + 1\<rparr>"]
    obtain x where x: "rng_choice (g\<lparr>pos := pos g + 1\<rparr>) ?av = Inr (x, g\<lparr>pos := pos g + 2\<rparr>)"
      and mem: "x \<in> set ?av" by auto
    from mem have nf: "\<not> is_full (cs x)" by (simp del: filter.simps)
    have "choose_container g l c r = Inr (Some x, g\<lparr>pos := pos g + 2\<rparr>)"
      using p pref full ne x unfolding choose_container_def cs_def Let_def
      by (simp del: filter.simps)
    with nf show ?thesis by blast
  qed
  show ?thesis using c1 c2 c3 by blast
qed

lemma container_of_cases:
  "container_of location name
     = (case name of Left \<Rightarrow> left location | Center \<Rightarrow> center location | Right \<Rightarrow> right location)"
  by (simp add: container_of_def)

lemma step_location_no_arrival:
  assumes "\<not> unit_float (tape g (pos g)) < arrival_prob sim_cfg"
  shows "step_location g sim_cfg location = Inr (g\<lparr>pos := pos g + 1\<rparr>, location, no_deposit)"
  using assms by (simp add: step_location_def rng_random_def Let_def)

lemma step_location_arrival:
  assumes "unit_float (tape g (pos g)) < arrival_prob sim_cfg"
  shows "step_location g sim_cfg location =
     (case choose_container (g\<lparr>pos := pos g + 1\<rparr>) (left location) (center location) (right location) of
        Inl e \<Rightarrow> Inl e
      | Inr (None, g2) \<Rightarrow> Inr (g2, location, no_deposit)
      | Inr (Some name, g2) \<Rightarrow>
          Inr (g2,
               deposit_into location name
                 (min 100 (fill_pct (container_of location name) + bag_fill_delta_pct sim_cfg)),
               \<lparr>deposited = True, container = Some name,
                old_fill_pct = Some (fill_pct (container_of location name)),
                new_fill_pct =
                  Some (min 100 (fill_pct (container_of location name) + bag_fill_delta_pct sim_cfg))\<rparr>))"
  using assms
  by (simp add: step_location_def rng_random_def Let_def apply_deposit_def deposit_into_def
      container_of_def split: sum.splits option.splits container_name.splits prod.splits)

lemma sample_step:
  "step_location sample_rng sample_cfg left_full_location
     = Inr (sample_rng\<lparr>pos := 3\<rparr>,
            left_full_location\<lparr>center := \<lparr>fill_pct = 2\<rparr>\<rparr>,
            \<lparr>deposited = True, container = Some Center,
             old_fill_pct = Some 0, new_fill_pct = Some 2\<rparr>)"
proof -
  have arr: "unit_float (tape sample_rng (pos sample_rng)) < arrival_prob sample_cfg"
    by (simp add: sample_rng_def sample_tape_def sample_cfg_def)
  have ch: "choose_container (sample_rng\<lparr>pos := pos sample_rng + 1\<rparr>)
              (left left_full_location) (center left_full_location) (right left_full_location)
            = Inr (Some Center, sample_rng\<lparr>pos := 3\<rparr>)"
    by (simp add: choose_container_def pick_preferred_container_def rng_random_def
        rng_choice_def sample_rng_def sample_tape_def is_full_def Let_def left_full_location_def)
  show ?thesis
    unfolding step_location_arrival [OF arr] ch
    by (simp add: left_full_location_def deposit_into_def container_of_def sample_cfg_def)
qed

text \<open>
  Claim C5. For every generator state and every three containers, \<open>choose_container\<close>
  returns, and it returns none exactly when all three containers are full
  (\<open>fill_pct \<ge> 100\<close>); a container it returns is not full. So a full container is never
  returned, and all three full always gives none.
\<close>

theorem choose_container_none_iff_all_full:
  "(\<exists>res g'. choose_container g l c r = Inr (res, g'))
     \<and> ((\<exists>g'. choose_container g l c r = Inr (None, g'))
          = (is_full l \<and> is_full c \<and> is_full r))
     \<and> (\<forall>name g'. choose_container g l c r = Inr (Some name, g')
          \<longrightarrow> \<not> is_full (case name of Left \<Rightarrow> l | Center \<Rightarrow> c | Right \<Rightarrow> r))"
proof -
  let ?cs = "\<lambda>name. case name of Left \<Rightarrow> l | Center \<Rightarrow> c | Right \<Rightarrow> r"
  let ?pref = "fst (pick_preferred_container g)"
  note cc = choose_container_cases [of l c r g]
  consider (free) "\<not> is_full (?cs ?pref)"
    | (all) "is_full l \<and> is_full c \<and> is_full r"
    | (fallback) "is_full (?cs ?pref)" "\<not> (is_full l \<and> is_full c \<and> is_full r)"
    by blast
  then show ?thesis
  proof cases
    case free
    then have r: "choose_container g l c r = Inr (Some ?pref, g\<lparr>pos := pos g + 1\<rparr>)"
      using cc by blast
    have "\<not> (is_full l \<and> is_full c \<and> is_full r)"
      using free by (cases ?pref) auto
    then show ?thesis using r free by simp
  next
    case all
    then have "choose_container g l c r = Inr (None, g\<lparr>pos := pos g + 1\<rparr>)"
      using cc by blast
    then show ?thesis using all by simp
  next
    case fallback
    then obtain name where
      "choose_container g l c r = Inr (Some name, g\<lparr>pos := pos g + 2\<rparr>)" "\<not> is_full (?cs name)"
      using cc by blast
    then show ?thesis using fallback by simp
  qed
qed

theorem choose_container_none_iff_all_full_witness:
  "choose_container sample_rng \<lparr>fill_pct = 100\<rparr> \<lparr>fill_pct = 100\<rparr> \<lparr>fill_pct = 100\<rparr>
     = Inr (None, sample_rng\<lparr>pos := 1\<rparr>)
   \<and> choose_container sample_rng \<lparr>fill_pct = 100\<rparr> \<lparr>fill_pct = 0\<rparr> \<lparr>fill_pct = 0\<rparr>
     = Inr (Some Center, sample_rng\<lparr>pos := 2\<rparr>)
   \<and> \<not> is_full \<lparr>fill_pct = 0\<rparr>"
proof -
  have a: "choose_container sample_rng \<lparr>fill_pct = 100\<rparr> \<lparr>fill_pct = 100\<rparr> \<lparr>fill_pct = 100\<rparr>
      = Inr (None, sample_rng\<lparr>pos := 1\<rparr>)"
    by (simp add: choose_container_def pick_preferred_container_def rng_random_def
        sample_rng_def sample_tape_def is_full_def Let_def)
  have b: "choose_container sample_rng \<lparr>fill_pct = 100\<rparr> \<lparr>fill_pct = 0\<rparr> \<lparr>fill_pct = 0\<rparr>
      = Inr (Some Center, sample_rng\<lparr>pos := 2\<rparr>)"
    by (simp add: choose_container_def pick_preferred_container_def rng_random_def
        rng_choice_def sample_rng_def sample_tape_def is_full_def Let_def)
  have c: "\<not> is_full \<lparr>fill_pct = 0\<rparr>"
    using choose_container_none_iff_all_full
      [of sample_rng "\<lparr>fill_pct = 100\<rparr>" "\<lparr>fill_pct = 0\<rparr>" "\<lparr>fill_pct = 0\<rparr>"] b
    by auto
  show ?thesis using a b c by simp
qed

lemma step_location_outcome:
  fixes g :: rng and sim_cfg :: SimulationConfig and location :: LocationState
  defines "roll \<equiv> unit_float (tape g (pos g))"
  defines "preferred \<equiv> fst (pick_preferred_container (g\<lparr>pos := pos g + 1\<rparr>))"
  defines "all_full \<equiv> is_full (left location) \<and> is_full (center location) \<and> is_full (right location)"
  defines "n \<equiv> (if \<not> roll < arrival_prob sim_cfg then 1
                 else if is_full (container_of location preferred) \<and> \<not> all_full then 3
                 else (2::nat))"
  shows "(\<exists>updated deposit.
            step_location g sim_cfg location = Inr (g\<lparr>pos := pos g + n\<rparr>, updated, deposit))
         \<and> 1 \<le> n \<and> n \<le> 3"
proof -
  have bounds: "1 \<le> n \<and> n \<le> 3" by (simp add: n_def)
  have run: "\<exists>updated deposit.
      step_location g sim_cfg location = Inr (g\<lparr>pos := pos g + n\<rparr>, updated, deposit)"
  proof (cases "roll < arrival_prob sim_cfg")
    case False
    then show ?thesis
      using step_location_no_arrival [of g sim_cfg location] by (simp add: n_def roll_def)
  next
    case True
    let ?g1 = "g\<lparr>pos := pos g + 1\<rparr>"
    note cc = choose_container_cases
      [of "left location" "center location" "right location" ?g1, folded container_of_cases]
    note st = step_location_arrival [OF True [unfolded roll_def], of location]
    consider (free) "\<not> is_full (container_of location preferred)"
      | (all) all_full
      | (fallback) "is_full (container_of location preferred)" "\<not> all_full"
      by blast
    then show ?thesis
    proof cases
      case free
      then have "choose_container ?g1 (left location) (center location) (right location)
          = Inr (Some preferred, ?g1\<lparr>pos := pos ?g1 + 1\<rparr>)"
        using cc unfolding preferred_def by blast
      moreover have "n = 2" using free True by (simp add: n_def)
      ultimately show ?thesis unfolding st by simp
    next
      case all
      then have "choose_container ?g1 (left location) (center location) (right location)
          = Inr (None, ?g1\<lparr>pos := pos ?g1 + 1\<rparr>)"
        using cc unfolding all_full_def by blast
      moreover have "n = 2" using all True by (simp add: n_def)
      ultimately show ?thesis unfolding st by simp
    next
      case fallback
      then obtain name where
        "choose_container ?g1 (left location) (center location) (right location)
          = Inr (Some name, ?g1\<lparr>pos := pos ?g1 + 2\<rparr>)"
        using cc unfolding all_full_def preferred_def by blast
      moreover have "n = 3" using fallback True by (simp add: n_def)
      ultimately show ?thesis unfolding st by simp
    qed
  qed
  with bounds show ?thesis by blast
qed

text \<open>
  Claim C3, as the code has it. One call of \<open>step_location\<close> always returns, leaves the
  generator's tape as it was and advances its position by the number of draws: 1 when no
  arrival occurs, 2 when an arrival occurs and the preferred container is not full or all
  three are full, and 3 when an arrival occurs, the preferred container is full and
  another one is not (the fallback \<^verbatim>\<open>rng.choice\<close> is a third draw). The bound of 2 draws
  that the claim states fails in the last case.
\<close>

theorem step_location_draws:
  fixes g :: rng and sim_cfg :: SimulationConfig and location :: LocationState
  defines "roll \<equiv> unit_float (tape g (pos g))"
  defines "preferred \<equiv> fst (pick_preferred_container (g\<lparr>pos := pos g + 1\<rparr>))"
  defines "all_full \<equiv> is_full (left location) \<and> is_full (center location) \<and> is_full (right location)"
  defines "n \<equiv> (if \<not> roll < arrival_prob sim_cfg then 1
                 else if is_full (container_of location preferred) \<and> \<not> all_full then 3
                 else (2::nat))"
  shows "(\<exists>updated deposit.
            step_location g sim_cfg location = Inr (g\<lparr>pos := pos g + n\<rparr>, updated, deposit))
         \<and> step_draws g sim_cfg location = Some (int n) \<and> 1 \<le> n \<and> n \<le> 3"
proof -
  from step_location_outcome [of g sim_cfg location]
  obtain updated deposit where
    run: "step_location g sim_cfg location = Inr (g\<lparr>pos := pos g + n\<rparr>, updated, deposit)"
    and bounds: "1 \<le> n" "n \<le> 3"
    unfolding n_def all_full_def preferred_def roll_def by blast
  from run have "step_draws g sim_cfg location = Some (int n)"
    by (simp add: step_draws_def draws_consumed_def)
  with run bounds show ?thesis by blast
qed

theorem step_location_draws_witness:
  "step_draws sample_rng sample_cfg left_full_location = Some 3
     \<and> step_draws sample_rng (sample_cfg\<lparr>arrival_prob := 0\<rparr>) left_full_location = Some 1"
proof -
  have a: "step_draws sample_rng sample_cfg left_full_location = Some 3"
    using step_location_draws [of sample_rng sample_cfg left_full_location]
    by (simp add: sample_rng_def sample_tape_def sample_cfg_def left_full_location_def
        pick_preferred_container_def rng_random_def container_of_def is_full_def)
  have b: "step_draws sample_rng (sample_cfg\<lparr>arrival_prob := 0\<rparr>) left_full_location = Some 1"
    using step_location_draws [of sample_rng "sample_cfg\<lparr>arrival_prob := 0\<rparr>" left_full_location]
    by (simp add: sample_rng_def sample_tape_def sample_cfg_def)
  show ?thesis using a b by simp
qed

text \<open>
  Claim C3, as stated, fails: with the left container full and left preferred, an arrival
  costs three draws.
\<close>

theorem step_location_draws_counterexample:
  "step_draws sample_rng sample_cfg left_full_location = Some 3
     \<and> \<not> (case step_draws sample_rng sample_cfg left_full_location of
              None \<Rightarrow> True | Some n \<Rightarrow> n \<le> 2)"
proof -
  have "step_draws sample_rng sample_cfg left_full_location = Some 3"
    unfolding step_draws_def sample_step by (simp add: draws_consumed_def sample_rng_def)
  then show ?thesis by simp
qed

text \<open>
  Claim C6. When an arrival occurs and the selector returns a container, \<open>step_location\<close>
  returns a location in which that container has fill \<open>min 100 (old + bag_fill_delta_pct)\<close>,
  the other two containers, \<open>location_id\<close>, \<open>lat\<close> and \<open>lon\<close> are unchanged, and the
  result says \<open>deposited\<close> with that container, the old fill and the new fill.
\<close>

theorem step_location_deposit_frame:
  assumes draw: "rng_random g = (roll, g1)"
    and arrival: "roll < arrival_prob sim_cfg"
    and chosen: "choose_container g1 (left location) (center location) (right location)
                   = Inr (Some name, g2)"
  shows "\<exists>updated deposit.
           step_location g sim_cfg location = Inr (g2, updated, deposit)
         \<and> container_of updated name
             = \<lparr>fill_pct = min 100 (fill_pct (container_of location name) + bag_fill_delta_pct sim_cfg)\<rparr>
         \<and> (\<forall>other. other \<noteq> name \<longrightarrow> container_of updated other = container_of location other)
         \<and> location_id updated = location_id location
         \<and> lat updated = lat location \<and> lon updated = lon location
         \<and> deposit = \<lparr>deposited = True, container = Some name,
                       old_fill_pct = Some (fill_pct (container_of location name)),
                       new_fill_pct = Some (min 100 (fill_pct (container_of location name)
                                                      + bag_fill_delta_pct sim_cfg))\<rparr>"
proof -
  from draw have roll: "roll = unit_float (tape g (pos g))" and g1: "g1 = g\<lparr>pos := pos g + 1\<rparr>"
    by (simp_all add: rng_random_def)
  let ?new = "min 100 (fill_pct (container_of location name) + bag_fill_delta_pct sim_cfg)"
  have run: "step_location g sim_cfg location =
      Inr (g2, deposit_into location name ?new,
           \<lparr>deposited = True, container = Some name,
            old_fill_pct = Some (fill_pct (container_of location name)),
            new_fill_pct = Some ?new\<rparr>)"
    using step_location_arrival [of g sim_cfg location] arrival chosen
    unfolding roll g1 by simp
  have target: "container_of (deposit_into location name ?new) name = \<lparr>fill_pct = ?new\<rparr>"
    by (cases name) (simp_all add: deposit_into_def container_of_def)
  have frame: "\<forall>other. other \<noteq> name \<longrightarrow>
      container_of (deposit_into location name ?new) other = container_of location other"
  proof (intro allI impI)
    fix other assume "other \<noteq> name"
    then show "container_of (deposit_into location name ?new) other = container_of location other"
      by (cases name; cases other) (simp_all add: deposit_into_def container_of_def)
  qed
  have meta: "location_id (deposit_into location name ?new) = location_id location
      \<and> lat (deposit_into location name ?new) = lat location
      \<and> lon (deposit_into location name ?new) = lon location"
    by (cases name) (simp_all add: deposit_into_def)
  show ?thesis using run target frame meta by blast
qed

theorem step_location_deposit_frame_witness:
  "rng_random sample_rng = (0, sample_rng\<lparr>pos := 1\<rparr>)
   \<and> 0 < arrival_prob sample_cfg
   \<and> step_location sample_rng sample_cfg left_full_location
       = Inr (sample_rng\<lparr>pos := 3\<rparr>,
              left_full_location\<lparr>center := \<lparr>fill_pct = 2\<rparr>\<rparr>,
              \<lparr>deposited = True, container = Some Center,
               old_fill_pct = Some 0, new_fill_pct = Some 2\<rparr>)"
proof -
  have draw: "rng_random sample_rng = (0, sample_rng\<lparr>pos := 1\<rparr>)"
    by (simp add: rng_random_def sample_rng_def sample_tape_def)
  have arrival: "0 < arrival_prob sample_cfg" by (simp add: sample_cfg_def)
  have chosen: "choose_container (sample_rng\<lparr>pos := 1\<rparr>)
        (left left_full_location) (center left_full_location) (right left_full_location)
      = Inr (Some Center, sample_rng\<lparr>pos := 3\<rparr>)"
    by (simp add: choose_container_def pick_preferred_container_def rng_random_def
        rng_choice_def sample_rng_def sample_tape_def is_full_def Let_def left_full_location_def)
  from step_location_deposit_frame [OF draw arrival chosen]
  obtain updated deposit where
    run: "step_location sample_rng sample_cfg left_full_location
            = Inr (sample_rng\<lparr>pos := 3\<rparr>, updated, deposit)"
    and tgt: "container_of updated Center = \<lparr>fill_pct = min 100
            (fill_pct (container_of left_full_location Center) + bag_fill_delta_pct sample_cfg)\<rparr>"
    and frame: "\<forall>other. other \<noteq> Center
            \<longrightarrow> container_of updated other = container_of left_full_location other"
    and meta: "location_id updated = location_id left_full_location"
       "lat updated = lat left_full_location" "lon updated = lon left_full_location"
    and dep: "deposit = \<lparr>deposited = True, container = Some Center,
         old_fill_pct = Some (fill_pct (container_of left_full_location Center)),
         new_fill_pct = Some (min 100 (fill_pct (container_of left_full_location Center)
                                        + bag_fill_delta_pct sample_cfg))\<rparr>"
    by blast
  from frame have l: "container_of updated Left = container_of left_full_location Left"
    and r: "container_of updated Right = container_of left_full_location Right" by simp_all
  have "updated = left_full_location\<lparr>center := \<lparr>fill_pct = 2\<rparr>\<rparr>"
    using tgt l r meta
    by (cases updated) (simp add: container_of_def left_full_location_def sample_cfg_def)
  moreover have "deposit = \<lparr>deposited = True, container = Some Center,
      old_fill_pct = Some 0, new_fill_pct = Some 2\<rparr>"
    using dep by (simp add: container_of_def left_full_location_def sample_cfg_def)
  ultimately show ?thesis using run draw arrival by simp
qed

lemma apply_deposit_bounds:
  assumes "0 \<le> fill_pct c" and "fill_pct c \<le> 100" and "0 \<le> delta"
  shows "0 \<le> min 100 (fill_pct c + delta) \<and> min 100 (fill_pct c + delta) \<le> 100
         \<and> fill_pct c \<le> min 100 (fill_pct c + delta)"
  using assms by simp

lemma step_location_total:
  "\<exists>g' updated deposit. step_location g sim_cfg location = Inr (g', updated, deposit)"
  using step_location_outcome [of g sim_cfg location] by blast

lemma step_location_preserves:
  assumes ok: "fills_in_range location" and delta: "0 \<le> bag_fill_delta_pct sim_cfg"
    and run: "step_location g sim_cfg location = Inr (g', updated, deposit)"
  shows "fills_in_range updated \<and> fills_non_decreasing location updated"
proof (cases "unit_float (tape g (pos g)) < arrival_prob sim_cfg")
  case False
  from step_location_no_arrival [OF False, of location] run have "updated = location" by simp
  then show ?thesis using ok by (simp add: fills_non_decreasing_def)
next
  case True
  note st = step_location_arrival [OF True, of location]
  show ?thesis
  proof (cases "choose_container (g\<lparr>pos := pos g + 1\<rparr>) (left location) (center location)
      (right location)")
    case (Inl e)
    with st run show ?thesis by simp
  next
    case (Inr res)
    obtain chosen g2 where res: "res = (chosen, g2)" by (cases res)
    show ?thesis
    proof (cases chosen)
      case None
      with st run Inr res have "updated = location" by simp
      then show ?thesis using ok by (simp add: fills_non_decreasing_def)
    next
      case (Some name)
      with st run Inr res have u: "updated = deposit_into location name
          (min 100 (fill_pct (container_of location name) + bag_fill_delta_pct sim_cfg))"
        by simp
      show ?thesis
        using ok delta unfolding u
        by (cases name)
          (simp_all add: deposit_into_def container_of_def fills_in_range_def
            fills_non_decreasing_def)
    qed
  qed
qed

lemma fills_non_decreasing_trans:
  "fills_non_decreasing a b \<Longrightarrow> fills_non_decreasing b c \<Longrightarrow> fills_non_decreasing a c"
  by (auto simp: fills_non_decreasing_def)

lemma steps_to_preserves:
  assumes "steps_to sim_cfg location location'"
    and "fills_in_range location" and "0 \<le> bag_fill_delta_pct sim_cfg"
  shows "fills_in_range location' \<and> fills_non_decreasing location location'"
  using assms
proof (induction rule: steps_to.induct)
  case (steps_to_refl location)
  then show ?case by (simp add: fills_non_decreasing_def)
next
  case (steps_to_step location location1 g g' location2 deposit)
  then have mid: "fills_in_range location1" "fills_non_decreasing location location1" by simp_all
  from step_location_preserves [OF mid(1) steps_to_step.prems(2) steps_to_step.hyps(2)]
  show ?case using mid(2) fills_non_decreasing_trans by blast
qed

text \<open>
  Claim C7. From a location whose three fills are in \<open>[0, 100]\<close>, with
  \<open>bag_fill_delta_pct \<ge> 0\<close>, \<open>step_location\<close> returns a location whose fills are in
  \<open>[0, 100]\<close> and none below its previous value; the same holds after any sequence of
  steps.
\<close>

theorem step_location_fill_invariant:
  assumes "fills_in_range location" and "0 \<le> bag_fill_delta_pct sim_cfg"
  shows "(\<exists>g' updated deposit.
            step_location g sim_cfg location = Inr (g', updated, deposit)
            \<and> fills_in_range updated \<and> fills_non_decreasing location updated)
         \<and> (\<forall>later. steps_to sim_cfg location later
               \<longrightarrow> fills_in_range later \<and> fills_non_decreasing location later)"
proof -
  obtain g' updated deposit where
    run: "step_location g sim_cfg location = Inr (g', updated, deposit)"
    using step_location_total by blast
  from step_location_preserves [OF assms run] run
  have one: "\<exists>g' updated deposit.
      step_location g sim_cfg location = Inr (g', updated, deposit)
      \<and> fills_in_range updated \<and> fills_non_decreasing location updated" by blast
  have many: "\<forall>later. steps_to sim_cfg location later
      \<longrightarrow> fills_in_range later \<and> fills_non_decreasing location later"
    using steps_to_preserves assms by blast
  from one many show ?thesis by blast
qed

theorem step_location_fill_invariant_witness:
  "fills_in_range left_full_location \<and> 0 \<le> bag_fill_delta_pct sample_cfg
   \<and> steps_to sample_cfg left_full_location (left_full_location\<lparr>center := \<lparr>fill_pct = 2\<rparr>\<rparr>)
   \<and> fills_in_range (left_full_location\<lparr>center := \<lparr>fill_pct = 2\<rparr>\<rparr>)
   \<and> fills_non_decreasing left_full_location (left_full_location\<lparr>center := \<lparr>fill_pct = 2\<rparr>\<rparr>)"
proof -
  have ok: "fills_in_range left_full_location"
    by (simp add: fills_in_range_def left_full_location_def)
  have delta: "0 \<le> bag_fill_delta_pct sample_cfg" by (simp add: sample_cfg_def)
  have reach: "steps_to sample_cfg left_full_location
      (left_full_location\<lparr>center := \<lparr>fill_pct = 2\<rparr>\<rparr>)"
    using steps_to_step [OF steps_to_refl sample_step] .
  from step_location_fill_invariant [OF ok delta, of sample_rng] reach
  have "fills_in_range (left_full_location\<lparr>center := \<lparr>fill_pct = 2\<rparr>\<rparr>)
      \<and> fills_non_decreasing left_full_location (left_full_location\<lparr>center := \<lparr>fill_pct = 2\<rparr>\<rparr>)"
    by blast
  with ok delta reach show ?thesis by simp
qed

section \<open>Properties of the publishers and the driver\<close>

lemma publish_each_append:
  "publish_each (ps @ qs) a w =
     (case publish_each ps a w of
        Raised e w1 \<Rightarrow> Raised e w1
      | Done u w1 \<Rightarrow> publish_each qs a w1)"
  by (induction ps arbitrary: w) (simp_all split: outcome.splits)

text \<open>
  Claim C2, as the code has it. \<open>TeeStatusPublisher\<close> forwards a call to its publishers
  in order and has no exception handler: when the publishers before \<open>p\<close> have returned
  and \<open>p\<close> raises, the exception is raised from \<open>publish_status\<close> of the fan-out in
  the world that \<open>p\<close> left, so no publisher after \<open>p\<close> receives the call; when \<open>p\<close>
  returns, the call goes on to the publishers after it, unaltered.
\<close>

theorem tee_stops_at_first_failure:
  assumes "publish_each before a w = Done () w1"
  shows "(publish_status p a w1 = Raised e w2
            \<longrightarrow> publish_status (TeeStatusPublisher (before @ p # after)) a w = Raised e w2)
       \<and> (publish_status p a w1 = Done () w2
            \<longrightarrow> publish_status (TeeStatusPublisher (before @ p # after)) a w
                  = publish_each after a w2)"
  using assms by (simp add: publish_each_append)

text \<open>
  Claim C2, as stated, fails: a fan-out of a log publisher whose file handle is closed and
  a console publisher raises the \<^verbatim>\<open>ValueError\<close> of the write, and the console has received
  nothing, although the console publisher alone delivers the same call.
\<close>

theorem tee_failure_counterexample:
  "publish_status
     (TeeStatusPublisher
        [JsonlFileStatusPublisher sample_mqtt ''sim.jsonl'', StdoutStatusPublisher sample_mqtt])
     sample_args closed_log_world
   = Raised ValueError closed_log_world
   \<and> content (closed_log_world Console) = []
   \<and> publish_status (StdoutStatusPublisher sample_mqtt) sample_args closed_log_world
       = Done () (closed_log_world
           (Console := \<lparr>fault = None, content = [status_message sample_mqtt sample_args]\<rparr>))"
  by (simp add: emit_def closed_log_world_def healthy_world_def)

theorem tee_stops_at_first_failure_witness:
  "publish_each [StdoutStatusPublisher sample_mqtt] sample_args closed_log_world
     = Done () (closed_log_world
         (Console := \<lparr>fault = None, content = [status_message sample_mqtt sample_args]\<rparr>))
   \<and> publish_status
       (TeeStatusPublisher
          [StdoutStatusPublisher sample_mqtt, JsonlFileStatusPublisher sample_mqtt ''sim.jsonl'',
           MqttStatusPublisher sample_mqtt])
       sample_args closed_log_world
     = Raised ValueError (closed_log_world
         (Console := \<lparr>fault = None, content = [status_message sample_mqtt sample_args]\<rparr>))"
proof -
  let ?w1 = "closed_log_world
     (Console := \<lparr>fault = None, content = [status_message sample_mqtt sample_args]\<rparr>)"
  have before: "publish_each [StdoutStatusPublisher sample_mqtt] sample_args closed_log_world
      = Done () ?w1"
    by (simp add: emit_def closed_log_world_def healthy_world_def)
  have fails: "publish_status (JsonlFileStatusPublisher sample_mqtt ''sim.jsonl'') sample_args ?w1
      = Raised ValueError ?w1"
    by (simp add: emit_def closed_log_world_def healthy_world_def)
  from tee_stops_at_first_failure [OF before, of "JsonlFileStatusPublisher sample_mqtt ''sim.jsonl''"
      ValueError ?w1 "[MqttStatusPublisher sample_mqtt]"] fails before
  show ?thesis by simp
qed















text \<open>
  Claim C10. With a seed (of the configuration or overriding it) and a configured start
  time, a run of \<open>run_simulation\<close> does not depend on the wall clock or on the entropy of
  the operating system: two runs with the same arguments, the same generator algorithm
  and the same availability of the file system and the broker end the same way and leave
  the same messages, in the same order, on every channel.
\<close>

theorem run_simulation_deterministic:
  assumes configured: "simulation cfg = Some sim_cfg"
    and seeded: "(case seed_override of Some s \<Rightarrow> Some s | None \<Rightarrow> seed sim_cfg) = Some n"
    and start: "start_time sim_cfg = Some t"
    and same_library: "prng e1 = prng e2"
    and same_io: "can_open e1 = can_open e2" "broker_reachable e1 = broker_reachable e2"
  shows "run_simulation e1 cfg steps dry_run seed_override log_file w
         = run_simulation e2 cfg steps dry_run seed_override log_file w"
proof -
  have rng: "Random e1 (case seed_override of Some s \<Rightarrow> Some s | None \<Rightarrow> seed sim_cfg)
      = Random e2 (case seed_override of Some s \<Rightarrow> Some s | None \<Rightarrow> seed sim_cfg)"
    unfolding seeded by (simp add: Random_def same_library)
  have body: "simulate e1 p sim_cfg steps locs g w' = simulate e2 p sim_cfg steps locs g w'"
    for p locs g w'
    by (simp add: simulate_def start)
  have log: "open_log e1 path w = open_log e2 path w" for path
    by (simp add: open_log_def same_io)
  have con: "connect_mqtt e1 w' = connect_mqtt e2 w'" for w'
    by (simp add: connect_mqtt_def same_io)
  show ?thesis
    unfolding run_simulation_def configured option.case Let_def rng body log con ..
qed

lemma sample_tape_step:
  assumes "fill_pct (left location) < 100"
  shows "step_location \<lparr>tape = sample_tape, pos = k\<rparr> sample_cfg location
     = Inr (\<lparr>tape = sample_tape, pos = k + 2\<rparr>,
            location\<lparr>left := \<lparr>fill_pct = min 100 (fill_pct (left location) + 2)\<rparr>\<rparr>,
            \<lparr>deposited = True, container = Some Left,
             old_fill_pct = Some (fill_pct (left location)),
             new_fill_pct = Some (min 100 (fill_pct (left location) + 2))\<rparr>)"
  using assms
  by (simp add: step_location_def rng_random_def choose_container_def
      pick_preferred_container_def sample_tape_def sample_cfg_def is_full_def
      apply_deposit_def Let_def)

text \<open>
  The end-to-end scenario of the tests: one location, arrivals at every step, deposits of
  2, boundaries every 10 and five steps give the three initial messages and one status
  message, at fill 10.
\<close>

lemma run_simulation_example:
  "run_simulation env_a sample_app 5 True None None healthy_world
     = Done () (healthy_world(Console := \<lparr>fault = None,
         content = [init_message Left, init_message Center, init_message Right,
                    tenth_message]\<rparr>))"
  by (simp add: run_simulation_def sample_app_def simulate_def Random_def env_a_def
      initial_location_state_def cleanup_def upto.simps plus_minutes_def datetime_min_def
      datetime_max_def sample_tape_step publish_deposit_def boundaries_crossed_def
      container_of_def emit_def healthy_world_def init_message_def tenth_message_def
      Let_def sample_cfg_def [THEN arg_cong [where f = start_time]]
      sample_cfg_def [THEN arg_cong [where f = locations]]
      sample_cfg_def [THEN arg_cong [where f = seed]]
      sample_cfg_def [THEN arg_cong [where f = timestep_minutes]]
      sample_cfg_def [THEN arg_cong [where f = publish_every_deposit]]
      sample_cfg_def [THEN arg_cong [where f = status_boundary_pct]])

theorem run_simulation_deterministic_witness:
  "simulation sample_app = Some sample_cfg \<and> seed sample_cfg = Some 42
   \<and> start_time sample_cfg = Some 0 \<and> prng env_a = prng env_b
   \<and> os_entropy env_a \<noteq> os_entropy env_b \<and> now env_a \<noteq> now env_b
   \<and> run_simulation env_b sample_app 5 True None None healthy_world
       = Done () (healthy_world(Console := \<lparr>fault = None,
           content = [init_message Left, init_message Center, init_message Right,
                      tenth_message]\<rparr>))"
proof -
  have h1: "simulation sample_app = Some sample_cfg" by (simp add: sample_app_def)
  have h2: "(case None of Some s \<Rightarrow> Some s | None \<Rightarrow> seed sample_cfg) = Some 42"
    by (simp add: sample_cfg_def)
  have h3: "start_time sample_cfg = Some 0" by (simp add: sample_cfg_def)
  have h4: "prng env_a = prng env_b" by (simp add: env_a_def env_b_def)
  have h5: "can_open env_a = can_open env_b" "broker_reachable env_a = broker_reachable env_b"
    by (simp_all add: env_a_def env_b_def)
  have d1: "os_entropy env_a \<noteq> os_entropy env_b"
  proof
    assume "os_entropy env_a = os_entropy env_b"
    then have "os_entropy env_a 0 = os_entropy env_b 0" by simp
    then show False by (simp add: env_a_def env_b_def sample_tape_def)
  qed
  have d2: "now env_a \<noteq> now env_b" by (simp add: env_a_def env_b_def)
  have "run_simulation env_a sample_app 5 True None None healthy_world
      = run_simulation env_b sample_app 5 True None None healthy_world"
    using run_simulation_deterministic [OF h1 h2 h3 h4 h5] .
  then show ?thesis using run_simulation_example h1 h2 h3 h4 d1 d2 by simp
qed

text \<open>
  Without a seed the run depends on the entropy of the operating system: the hypothesis
  of the determinism theorem is needed.
\<close>

lemma run_simulation_unseeded_a:
  "run_simulation env_a unseeded_app 5 True None None healthy_world
     = Done () (healthy_world(Console := \<lparr>fault = None,
         content = [init_message Left, init_message Center, init_message Right,
                    tenth_message]\<rparr>))"
  by (simp add: run_simulation_def unseeded_app_def simulate_def Random_def env_a_def
      initial_location_state_def cleanup_def upto.simps plus_minutes_def datetime_min_def
      datetime_max_def publish_deposit_def boundaries_crossed_def
      container_of_def emit_def healthy_world_def init_message_def tenth_message_def
      step_location_def rng_random_def choose_container_def
      pick_preferred_container_def sample_tape_def sample_cfg_def is_full_def
      apply_deposit_def Let_def)

lemma run_simulation_unseeded_b:
  "run_simulation env_b unseeded_app 5 True None None healthy_world
     = Done () (healthy_world(Console := \<lparr>fault = None,
         content = [init_message Left, init_message Center, init_message Right,
                    status_message sample_mqtt
     \<lparr>a_ts = 3600000000,
      a_location = \<lparr>location_id = ''a'', lat = 55, lon = 12, left = \<lparr>fill_pct = 0\<rparr>,
                    center = \<lparr>fill_pct = 10\<rparr>, right = \<lparr>fill_pct = 0\<rparr>\<rparr>,
      a_container = Center, a_fill_pct = 10, a_timestep_index = 4, a_event = ''status''\<rparr>]\<rparr>))"
  by (simp add: run_simulation_def unseeded_app_def simulate_def Random_def env_b_def
      initial_location_state_def cleanup_def upto.simps plus_minutes_def datetime_min_def
      datetime_max_def publish_deposit_def boundaries_crossed_def
      container_of_def emit_def healthy_world_def init_message_def tenth_message_def
      step_location_def rng_random_def choose_container_def
      pick_preferred_container_def sample_tape_def sample_cfg_def is_full_def
      apply_deposit_def Let_def)

lemma run_simulation_unseeded_differs:
  "run_simulation env_a unseeded_app 5 True None None healthy_world
     \<noteq> run_simulation env_b unseeded_app 5 True None None healthy_world"
proof
  assume "run_simulation env_a unseeded_app 5 True None None healthy_world
     = run_simulation env_b unseeded_app 5 True None None healthy_world"
  then have "content ((healthy_world(Console := \<lparr>fault = None,
         content = [init_message Left, init_message Center, init_message Right,
                    tenth_message]\<rparr>)) Console) ! 3 = 
       content ((healthy_world(Console := \<lparr>fault = None,
         content = [init_message Left, init_message Center, init_message Right,
                    status_message sample_mqtt
     \<lparr>a_ts = 3600000000,
      a_location = \<lparr>location_id = ''a'', lat = 55, lon = 12, left = \<lparr>fill_pct = 0\<rparr>,
                    center = \<lparr>fill_pct = 10\<rparr>, right = \<lparr>fill_pct = 0\<rparr>\<rparr>,
      a_container = Center, a_fill_pct = 10, a_timestep_index = 4, a_event = ''status''\<rparr>]\<rparr>)) Console) ! 3"
    unfolding run_simulation_unseeded_a run_simulation_unseeded_b by simp
  then show False
    by (simp add: tenth_message_def status_message_def make_status_payload_def container_str_def)
qed

section \<open>Properties of the consumer\<close>

lemma collect_payloads_Cons:
  "collect_payloads L (line # rest) =
     (if strip L line = [] then collect_payloads L rest
      else case loads L (strip L line) of
             Some (JDict d) \<Rightarrow>
               (case map_of d ''payload'' of
                  Some (JDict payload) \<Rightarrow> payload # collect_payloads L rest
                | _ \<Rightarrow> collect_payloads L rest)
           | _ \<Rightarrow> collect_payloads L rest)"
  by (simp add: Let_def split: option.splits json.splits)

lemma timestep_escape:
  "(\<exists>e. py_int L v = Inl e \<and> e \<noteq> TypeError \<and> e \<noteq> ValueError) = (v = JFloat Infinite)"
  by (auto simp: py_int_def split: json.splits pyfloat.splits option.splits)

lemma timestep_value:
  assumes "v \<noteq> JFloat Infinite"
  shows "(case py_int L v of
            Inl e \<Rightarrow> if e = TypeError \<or> e = ValueError then Inr 0 else Inl e
          | Inr i \<Rightarrow> Inr i)
         = Inr (case py_int L v of Inl e \<Rightarrow> 0 | Inr i \<Rightarrow> i)"
  using assms timestep_escape [of L v] by (cases "py_int L v") auto

lemma timestep_infinite:
  "(case py_int L (JFloat Infinite) of
      Inl e \<Rightarrow> if e = TypeError \<or> e = ValueError then Inr 0 else Inl e
    | Inr i \<Rightarrow> Inr i) = Inl OverflowError"
  by (simp add: py_int_def)

lemma py_truthy_JNull: "\<not> py_truthy JNull"
  by (simp add: py_truthy_def)

lemma event_from_payload_spec:
  "event_from_payload L payload = Inr ev \<longleftrightarrow> payload_event L payload = Some ev"
proof (cases "map_of payload ''ts''")
  case None
  then show ?thesis by (simp add: event_from_payload_def payload_event_def)
next
  case ts: (Some ts_raw)
  show ?thesis
  proof (cases "\<exists>ts_text. ts_raw = JStr ts_text")
    case False
    then have "parse_ts L ts_raw = Inl ValueError"
      by (cases ts_raw) (simp_all add: parse_ts_def)
    moreover have "payload_event L payload = None"
      using ts False by (cases ts_raw) (simp_all add: payload_event_def)
    ultimately show ?thesis using ts by (simp add: event_from_payload_def)
  next
    case True
    then obtain ts_text where is_text: "ts_raw = JStr ts_text" by blast
    let ?iso_text = "if ts_text \<noteq> [] \<and> last ts_text = CHR ''Z''
      then butlast ts_text @ ''+00:00'' else ts_text"
    have parse: "parse_ts L ts_raw = fromisoformat L ?iso_text"
      by (simp add: is_text parse_ts_def Let_def)
    show ?thesis
    proof (cases "fromisoformat L ?iso_text")
      case (Inl e)
      then show ?thesis
        using ts is_text parse by (simp add: event_from_payload_def payload_event_def)
    next
      case parsed: (Inr t)
      show ?thesis
      proof (cases "map_of payload ''location_id''")
        case None
        then show ?thesis
          using ts is_text parse parsed by (simp add: event_from_payload_def payload_event_def)
      next
        case loc: (Some location_raw)
        show ?thesis
        proof (cases "map_of payload ''container''")
          case None
          then show ?thesis
            using ts is_text parse parsed loc
            by (simp add: event_from_payload_def payload_event_def)
        next
          case cont: (Some container_raw)
          show ?thesis
          proof (cases "map_of payload ''fill_pct''")
            case None
            then show ?thesis
              using ts is_text parse parsed loc cont
              by (simp add: event_from_payload_def payload_event_def)
          next
            case fill: (Some fill_raw)
            show ?thesis
            proof (cases "py_int L fill_raw")
              case (Inl e)
              then show ?thesis
                using ts is_text parse parsed loc cont fill
                by (simp add: event_from_payload_def payload_event_def)
            next
              case conv: (Inr fill_value)
              show ?thesis
              proof (cases "map_of payload ''timestep_index''")
                case None
                then show ?thesis
                  using ts is_text parse parsed loc cont fill conv
                  by (auto simp: event_from_payload_def payload_event_def py_int_def
                      py_truthy_JNull Let_def split: option.splits)
              next
                case step: (Some v)
                show ?thesis
                proof (cases "v = JFloat Infinite")
                  case True
                  then show ?thesis
                    using ts is_text parse parsed loc cont fill conv step
                    by (simp add: event_from_payload_def payload_event_def
                        timestep_infinite Let_def)
                next
                  case False
                  then show ?thesis
                    using ts is_text parse parsed loc cont fill conv step
                    by (auto simp: event_from_payload_def payload_event_def
                        timestep_value [OF False] py_truthy_JNull Let_def
                        split: option.splits)
                qed
              qed
            qed
          qed
        qed
      qed
    qed
  qed
qed

lemma event_from_payload_fails_iff:
  "(\<exists>e. event_from_payload L payload = Inl e) = (payload_event L payload = None)"
proof -
  have "(\<exists>e. event_from_payload L payload = Inl e)
      = (\<not> (\<exists>ev. event_from_payload L payload = Inr ev))"
    by (cases "event_from_payload L payload") simp_all
  also have "\<dots> = (payload_event L payload = None)"
    unfolding event_from_payload_spec by simp
  finally show ?thesis .
qed

lemma new_events_Cons:
  "new_events L (payload # rest) =
     (case payload_event L payload of
        None \<Rightarrow> new_events L rest
      | Some ev \<Rightarrow> ev # new_events L rest)"
proof (cases "payload_event L payload")
  case None
  then have "\<exists>e. event_from_payload L payload = Inl e"
    using event_from_payload_fails_iff by blast
  then show ?thesis using None by auto
next
  case (Some ev)
  then have "event_from_payload L payload = Inr ev"
    using event_from_payload_spec by blast
  then show ?thesis using Some by simp
qed

lemma new_events_collect:
  "new_events L (collect_payloads L lines) = List.map_filter (line_event L) lines"
proof (induction lines)
  case Nil
  show ?case by (simp add: List.map_filter_simps)
next
  case (Cons line rest)
  show ?case
    unfolding collect_payloads_Cons
    using Cons.IH
    by (simp add: List.map_filter_simps line_event_def new_events_Cons
        del: new_events.simps split: option.splits json.splits)
qed

lemma payload_event_None_iff:
  "payload_event L payload = None \<longleftrightarrow> payload_rejected L payload"
proof (cases "map_of payload ''ts''")
  case None
  then show ?thesis by (simp add: payload_event_def payload_rejected_def)
next
  case ts: (Some ts_raw)
  show ?thesis
  proof (cases "\<exists>ts_text. ts_raw = JStr ts_text")
    case False
    then have "payload_event L payload = None"
      using ts by (cases ts_raw) (simp_all add: payload_event_def)
    moreover have "payload_rejected L payload"
      using ts False by (auto simp: payload_rejected_def)
    ultimately show ?thesis by simp
  next
    case True
    then obtain ts_text where is_text: "ts_raw = JStr ts_text" by blast
    show ?thesis
      using ts is_text
      by (auto simp: payload_event_def payload_rejected_def
          split: option.splits sum.splits)
  qed
qed

lemma py_int_converts:
  "py_int L v = Inr i \<longleftrightarrow>
     (v = JInt i
      \<or> (\<exists>b. v = JBool b \<and> i = (if b then 1 else 0))
      \<or> (\<exists>r. v = JFloat (Finite r) \<and> i = (if 0 \<le> r then \<lfloor>r\<rfloor> else \<lceil>r\<rceil>))
      \<or> (\<exists>s. v = JStr s \<and> int_of_str L s = Some i))"
  by (cases v) (auto simp: py_int_def split: pyfloat.splits option.splits)

lemma sample_line_events:
  "line_event sample_lib (good_line @ [CHR 0x0A]) = Some good_event"
  "line_event sample_lib (missing_fill_line @ [CHR 0x0A]) = None"
  "line_event sample_lib [CHR 0x0A] = None"
  "line_event sample_lib (garbage_line @ [CHR 0x0A]) = None"
  "line_event sample_lib (list_line @ [CHR 0x0A]) = None"
  "line_event sample_lib (wrong_type_line @ [CHR 0x0A]) = Some coerced_event"
  by (simp_all add: line_event_def ascii_strip_def ascii_isspace_def sample_lib_def
      good_line_def missing_fill_line_def wrong_type_line_def garbage_line_def list_line_def
      good_payload_def missing_fill_payload_def wrong_type_payload_def payload_event_def
      py_int_def py_str_def py_truthy_def good_event_def coerced_event_def)

text \<open>
  Claim C9, as the code has it. Once the lines are read, the two loops of the consumer do
  not raise, and they yield, in order, the events of exactly the lines that are not
  blank, that \<^verbatim>\<open>json.loads\<close> reads as a dictionary with a dictionary under \<^verbatim>\<open>payload\<close>, and
  whose payload is taken; every other line is skipped. \<open>event_from_payload\<close> returns
  exactly the event of \<open>payload_event\<close>, and it raises exactly on the payloads of
  \<open>payload_rejected\<close>: \<^verbatim>\<open>ts\<close>, \<^verbatim>\<open>location_id\<close>, \<^verbatim>\<open>container\<close> or \<^verbatim>\<open>fill_pct\<close> is absent, \<^verbatim>\<open>ts\<close> is
  not a string or the library raises on its text, \<^verbatim>\<open>int\<close> raises on \<^verbatim>\<open>fill_pct\<close>, or
  \<^verbatim>\<open>timestep_index\<close> is an infinite float. A field of another JSON type is converted and
  its record is not skipped: \<^verbatim>\<open>int\<close> takes an integer, a boolean (0 or 1), a finite float
  (truncated towards zero) and a string that the library reads as an integer; \<^verbatim>\<open>str\<close>
  takes every value.
\<close>

theorem consumer_skips_rejected_records:
  "new_events L (collect_payloads L lines) = List.map_filter (line_event L) lines
   \<and> (\<forall>payload ev.
         (event_from_payload L payload = Inr ev) = (payload_event L payload = Some ev))
   \<and> (\<forall>payload. (\<exists>e. event_from_payload L payload = Inl e) = payload_rejected L payload)
   \<and> (\<forall>v i. (py_int L v = Inr i) =
         (v = JInt i
          \<or> (\<exists>b. v = JBool b \<and> i = (if b then 1 else 0))
          \<or> (\<exists>r. v = JFloat (Finite r) \<and> i = (if 0 \<le> r then \<lfloor>r\<rfloor> else \<lceil>r\<rceil>))
          \<or> (\<exists>s. v = JStr s \<and> int_of_str L s = Some i)))
   \<and> (\<forall>s. py_str L (JStr s) = s)
   \<and> (\<forall>v. (\<forall>s. v \<noteq> JStr s) \<longrightarrow> py_str L v = str_of L v)"
proof (intro conjI allI impI)
  show "new_events L (collect_payloads L lines) = List.map_filter (line_event L) lines"
    by (rule new_events_collect)
  show "(event_from_payload L payload = Inr ev) = (payload_event L payload = Some ev)"
    for payload ev
    by (rule event_from_payload_spec)
  show "(\<exists>e. event_from_payload L payload = Inl e) = payload_rejected L payload" for payload
    unfolding event_from_payload_fails_iff by (rule payload_event_None_iff)
  show "(py_int L v = Inr i) =
         (v = JInt i
          \<or> (\<exists>b. v = JBool b \<and> i = (if b then 1 else 0))
          \<or> (\<exists>r. v = JFloat (Finite r) \<and> i = (if 0 \<le> r then \<lfloor>r\<rfloor> else \<lceil>r\<rceil>))
          \<or> (\<exists>s. v = JStr s \<and> int_of_str L s = Some i))" for v i
    by (rule py_int_converts)
  show "py_str L (JStr s) = s" for s by (simp add: py_str_def)
  show "py_str L v = str_of L v" if "\<forall>s. v \<noteq> JStr s" for v
    using that by (cases v) (simp_all add: py_str_def)
qed

theorem consumer_skips_rejected_records_witness:
  "new_events sample_lib (collect_payloads sample_lib sample_log) = [good_event, coerced_event]
   \<and> payload_rejected sample_lib missing_fill_payload
   \<and> event_from_payload sample_lib missing_fill_payload = Inl KeyError
   \<and> event_from_payload sample_lib wrong_type_payload = Inr coerced_event
   \<and> py_str sample_lib (JInt 7) = ''7''"
proof -
  note inst = consumer_skips_rejected_records [of sample_lib sample_log]
  have run: "new_events sample_lib (collect_payloads sample_lib sample_log)
      = List.map_filter (line_event sample_lib) sample_log"
    using inst by blast
  have ev: "List.map_filter (line_event sample_lib) sample_log = [good_event, coerced_event]"
    by (simp add: sample_log_def List.map_filter_simps sample_line_events)
  have fails: "event_from_payload sample_lib missing_fill_payload = Inl KeyError"
    by (simp add: event_from_payload_def missing_fill_payload_def parse_ts_def sample_lib_def)
  then have rej: "payload_rejected sample_lib missing_fill_payload"
    using inst by blast
  have "payload_event sample_lib wrong_type_payload = Some coerced_event"
    by (simp add: payload_event_def wrong_type_payload_def sample_lib_def py_int_def
        py_str_def coerced_event_def)
  then have conv: "event_from_payload sample_lib wrong_type_payload = Inr coerced_event"
    using inst by blast
  have "\<forall>s. JInt 7 \<noteq> JStr s" by simp
  then have "py_str sample_lib (JInt 7) = str_of sample_lib (JInt 7)"
    using inst by blast
  then have str: "py_str sample_lib (JInt 7) = ''7''" by (simp add: sample_lib_def)
  from run ev fails rej conv str show ?thesis by simp
qed

text \<open>
  Claim C9, as stated, fails: a record whose \<^verbatim>\<open>location_id\<close> is a number and whose
  \<^verbatim>\<open>fill_pct\<close> is a string is not skipped; it yields an event with \<^verbatim>\<open>location_id\<close> "7" and
  \<^verbatim>\<open>fill_pct\<close> 42.
\<close>

theorem consumer_wrong_type_counterexample:
  "new_events sample_lib (collect_payloads sample_lib [wrong_type_line @ [CHR 0x0A]])
     = [coerced_event]
   \<and> map_of wrong_type_payload ''location_id'' = Some (JInt 7)
   \<and> map_of wrong_type_payload ''fill_pct'' = Some (JStr ''42'')"
proof -
  have "new_events sample_lib (collect_payloads sample_lib [wrong_type_line @ [CHR 0x0A]])
      = List.map_filter (line_event sample_lib) [wrong_type_line @ [CHR 0x0A]]"
    by (rule new_events_collect)
  also have "\<dots> = [coerced_event]"
    by (simp add: List.map_filter_simps sample_line_events)
  finally show ?thesis by (simp add: wrong_type_payload_def)
qed

end
